theory Spec2Isabelle
  imports Complex_Main
begin

section \<open>Data model of the Electron debugging server (src/index.ts)\<close>

text \<open>
  The server keeps one \<open>ElectronProcess\<close> object per supervised application in a
  \<open>Map\<close> keyed by the process identifier. The interfaces of the source become
  records; optional members (\<open>pid?\<close>, \<open>debugPort?\<close>, \<open>cdpClient?\<close>, \<open>targets?\<close>,
  \<open>lastTargetUpdate?\<close>) become \<open>option\<close> fields. Several interfaces share member
  names (\<open>pid\<close>, \<open>status\<close>, \<open>url\<close>, \<open>title\<close>, \<open>debugPort\<close>); the records that are only
  produced as output are declared first, so that an unqualified field name
  always refers to \<open>ElectronProcess\<close>, and the others are written qualified.
  The member \<open>id\<close> is written \<open>id'\<close>, \<open>type\<close> is written \<open>type'\<close>, and the member
  \<open>targetId\<close> of \<open>ElectronWebContentsInfo\<close> is written \<open>targetId'\<close>.
\<close>

datatype status = running | stopped | crashed

record ProcessInfo =
  pid :: nat
  cpuUsage :: real
  memoryUsage :: real
  status :: string

record ElectronWebContentsInfo =
  id' :: nat
  url :: string
  title :: string
  debuggable :: bool
  debugPort :: "nat option"
  targetId' :: "string option"

record Processes =
  main :: ProcessInfo
  renderers :: "ProcessInfo list"

record ElectronDebugInfo =
  webContents :: "ElectronWebContentsInfo list"
  processes :: Processes

record CDPTarget =
  id' :: string
  type' :: string
  title :: string
  url :: string
  webSocketDebuggerUrl :: "string option"
  devtoolsFrontendUrl :: "string option"

text \<open>
  A \<open>CDPClient\<close> is an open debugging session and a \<open>ChildProcess\<close> an operating
  system process. Both are objects of libraries outside the repository; the model
  keeps a handle for each (and, for the child, the process id that \<open>spawn\<close>
  reported) and records every call made on them as an event.
\<close>

datatype CDPClient = CDPClient nat

datatype ChildProcess = ChildProcess (handle: nat) (child_pid: "nat option")

record ElectronProcess =
  id' :: string
  process :: ChildProcess
  name :: string
  status :: status
  pid :: "nat option"
  debugPort :: "nat option"
  startTime :: int
  logs :: "string list"
  appPath :: string
  cdpClient :: "CDPClient option"
  targets :: "CDPTarget list option"
  lastTargetUpdate :: "int option"

record McpRuntimeState =
  electronProcesses :: "string \<rightharpoonup> ElectronProcess"

definition createRuntimeState :: McpRuntimeState where
  "createRuntimeState = \<lparr>electronProcesses = Map.empty\<rparr>"

subsection \<open>Values crossing the session and the failures of the source\<close>

text \<open>
  Command parameters are a \<open>Record<string, unknown>\<close>: a list of named values.
  A reply is \<open>unknown\<close> to \<open>executeCDPCommand\<close>, which hands it back as it is;
  \<open>getElectronDebugInfo\<close> reads a reply at the type it asserts,
  \<open>{ metrics: Array<{ name: string; value: number }> }\<close>, when the reply is an
  object with a \<open>metrics\<close> member. The model therefore distinguishes a reply with
  such a member from every other reply.
\<close>

datatype jsvalue = JString string | JBool bool | JNumber real | JNull

type_synonym params = "(string \<times> jsvalue) list"

datatype reply = MetricsReply "(string \<times> real) list" | OtherReply string

text \<open>
  One constructor for each \<open>throw\<close> site of the source, and one for the
  \<open>RangeError\<close> that \<open>server.listen\<close> throws for a port outside 0..65535.
\<close>

datatype discovery_error =
    FetchRejected string
  | FailedToGetTargets string
  | JsonRejected

datatype error =
    NoPortAvailable
  | PortUnavailable nat
  | RangeError nat
  | NoDebugPort
  | DiscoveryFailed discovery_error
  | TargetNotFound string
  | SessionError string
  | ProcessNotFound string
  | TargetNotFoundInProcess string string
  | InvalidCdpCommand string
  | CdpCommandFailed error
  | InvalidCdpUri string
  | ResourceNotFound string

text \<open>The calls the server makes on its collaborators, in the order it makes them.\<close>

datatype event =
    Probed nat
  | Spawned string "string list"
  | Fetched nat
  | Connected string nat
  | Sent CDPClient string "params option"
  | Closed CDPClient
  | Killed ChildProcess

subsection \<open>The environment\<close>

text \<open>
  What the collaborators answer is a parameter of every operation:
  \<^item> \<open>bindSucceeds port\<close>: whether a server can listen on the port, asked for the
    ports 1..65535 only;
  \<^item> \<open>fetch t port\<close>: the outcome of \<open>GET http://localhost:port/json/list\<close> issued at
    time \<open>t\<close>: the request is rejected, or a response arrives with its \<open>ok\<close> flag,
    its status text and its body read as JSON (\<open>None\<close> when \<open>json()\<close> rejects);
  \<^item> \<open>CDP target port\<close>: the outcome of opening a session;
  \<^item> \<open>send client method params\<close>: the outcome of a command on a session;
  \<^item> \<open>spawn\<close>, \<open>electronExecutablePath\<close> and \<open>basename\<close>: the results of the process
    and path libraries.
  The clock is read once per operation (the argument \<open>now\<close>); the time an operation
  spends waiting is not modelled, except in the start-up polling loop, which
  advances the clock by its 500 ms pause.
\<close>

datatype fetch_result =
    Rejected string
  | Response bool string "CDPTarget list option"

record env =
  bindSucceeds :: "nat \<Rightarrow> bool"
  fetch :: "int \<Rightarrow> nat \<Rightarrow> fetch_result"
  CDP :: "string \<Rightarrow> nat \<Rightarrow> string + CDPClient"
  send :: "CDPClient \<Rightarrow> string \<Rightarrow> params option \<Rightarrow> string + reply"
  spawn :: "string \<Rightarrow> string list \<Rightarrow> ChildProcess"
  electronExecutablePath :: string
  basename :: "string \<Rightarrow> string"

section \<open>Log capture (addLog, inside startElectronApp)\<close>

definition MAX_LOG_ENTRIES :: nat where
  "MAX_LOG_ENTRIES = 1000"

text \<open>
  \<open>logs.push(log)\<close>, then \<open>logs.splice(0, logs.length - MAX_LOG_ENTRIES)\<close> when the
  length exceeds the cap: \<open>splice(0, n)\<close> removes the first \<open>n\<close> elements.
\<close>

definition addLog :: "ElectronProcess \<Rightarrow> string \<Rightarrow> ElectronProcess" where
  "addLog p log' =
     (let pushed = logs p @ [log'] in
      if length pushed > MAX_LOG_ENTRIES
      then p\<lparr>logs := drop (length pushed - MAX_LOG_ENTRIES) pushed\<rparr>
      else p\<lparr>logs := pushed\<rparr>)"

section \<open>Target discovery and sessions (src/index.ts)\<close>

text \<open>
  Every operation returns its result (\<open>Inl\<close> is the error thrown), the process
  record as the operation leaves it (the source mutates the object in place) and
  the events it caused.
\<close>

text \<open>
  updateCDPTargets. \<open>!electronProcess.debugPort\<close> is true for an undefined port and
  for port 0. The cache and its timestamp are assigned only after \<open>fetch\<close> and
  \<open>response.json()\<close> have both succeeded; the \<open>catch\<close> logs and throws again.
\<close>

definition updateCDPTargets ::
  "env \<Rightarrow> int \<Rightarrow> ElectronProcess \<Rightarrow> (error + CDPTarget list) \<times> ElectronProcess \<times> event list" where
  "updateCDPTargets w now p =
     (case debugPort p of
        None \<Rightarrow> (Inl NoDebugPort, p, [])
      | Some port \<Rightarrow>
          if port = 0 then (Inl NoDebugPort, p, [])
          else
            (case fetch w now port of
               Rejected msg \<Rightarrow> (Inl (DiscoveryFailed (FetchRejected msg)), p, [Fetched port])
             | Response ok statusText body \<Rightarrow>
                 if \<not> ok
                 then (Inl (DiscoveryFailed (FailedToGetTargets statusText)), p, [Fetched port])
                 else
                   (case body of
                      None \<Rightarrow> (Inl (DiscoveryFailed JsonRejected), p, [Fetched port])
                    | Some ts \<Rightarrow>
                        (Inr ts, p\<lparr>targets := Some ts, lastTargetUpdate := Some now\<rparr>,
                         [Fetched port]))))"

text \<open>\<open>electronProcess.targets?.find(t => t.id === targetId)\<close>\<close>

definition find_target :: "CDPTarget list option \<Rightarrow> string \<Rightarrow> CDPTarget option" where
  "find_target cache targetId =
     (case cache of
        None \<Rightarrow> None
      | Some ts \<Rightarrow> find (\<lambda>t. CDPTarget.id' t = targetId) ts)"

text \<open>
  The test that guards the refresh in connectToCDPTarget:
  \<open>!targets || !lastTargetUpdate || now - lastTargetUpdate > 5000\<close>.
\<close>

definition needs_refresh :: "int \<Rightarrow> ElectronProcess \<Rightarrow> bool" where
  "needs_refresh now p =
     (case targets p of
        None \<Rightarrow> True
      | Some ts \<Rightarrow>
          (case lastTargetUpdate p of
             None \<Rightarrow> True
           | Some last' \<Rightarrow> now - last' > 5000))"

text \<open>
  connectToCDPTarget. The refresh, the lookup and the opening of the session all
  stand in one \<open>try\<close> block whose \<open>catch\<close> logs the error and throws it again, so
  the first failure ends the operation.
\<close>

definition connectToCDPTarget ::
  "env \<Rightarrow> int \<Rightarrow> ElectronProcess \<Rightarrow> string \<Rightarrow> (error + CDPClient) \<times> ElectronProcess \<times> event list" where
  "connectToCDPTarget w now p targetId =
     (case debugPort p of
        None \<Rightarrow> (Inl NoDebugPort, p, [])
      | Some port \<Rightarrow>
          if port = 0 then (Inl NoDebugPort, p, [])
          else
            (case (if needs_refresh now p then updateCDPTargets w now p else (Inr [], p, [])) of
               (Inl e, p1, ev1) \<Rightarrow> (Inl e, p1, ev1)
             | (Inr _, p1, ev1) \<Rightarrow>
                 (case find_target (targets p1) targetId of
                    None \<Rightarrow> (Inl (TargetNotFound targetId), p1, ev1)
                  | Some target \<Rightarrow>
                      (case CDP w targetId port of
                         Inl msg \<Rightarrow> (Inl (SessionError msg), p1, ev1 @ [Connected targetId port])
                       | Inr client \<Rightarrow>
                           (Inr client, p1\<lparr>cdpClient := Some client\<rparr>,
                            ev1 @ [Connected targetId port])))))"

text \<open>\<open>client.send(method, params)\<close>: the promise resolves with the reply or rejects.\<close>

definition client_send :: "env \<Rightarrow> CDPClient \<Rightarrow> string \<Rightarrow> params option \<Rightarrow> error + reply" where
  "client_send w client method' ps =
     (case send w client method' ps of
        Inl msg \<Rightarrow> Inl (SessionError msg)
      | Inr r \<Rightarrow> Inr r)"

text \<open>
  executeCDPCommand. The parameter \<open>params\<close> defaults to \<open>{}\<close> when the caller
  leaves it out; the command name is the template \<open>`${domain}.${command}`\<close>.
\<close>

definition executeCDPCommand ::
  "env \<Rightarrow> int \<Rightarrow> ElectronProcess \<Rightarrow> string \<Rightarrow> string \<Rightarrow> string \<Rightarrow> params option
     \<Rightarrow> (error + reply) \<times> ElectronProcess \<times> event list" where
  "executeCDPCommand w now p targetId domain command params =
     (let ps = (case params of None \<Rightarrow> [] | Some given \<Rightarrow> given);
          method' = domain @ ''.'' @ command
      in case cdpClient p of
           Some client \<Rightarrow>
             (client_send w client method' (Some ps), p, [Sent client method' (Some ps)])
         | None \<Rightarrow>
             (case connectToCDPTarget w now p targetId of
                (Inl e, p1, ev1) \<Rightarrow> (Inl e, p1, ev1)
              | (Inr client, p1, ev1) \<Rightarrow>
                  (client_send w client method' (Some ps), p1,
                   ev1 @ [Sent client method' (Some ps)])))"


section \<open>Starting and stopping applications (src/index.ts)\<close>

text \<open>Decimal rendering of numbers inside template strings.\<close>

fun show_nat :: "nat \<Rightarrow> string" where
  "show_nat n =
     (if n < 10 then [''0123456789'' ! n]
      else show_nat (n div 10) @ [''0123456789'' ! (n mod 10)])"

declare show_nat.simps [simp del]

definition show_int :: "int \<Rightarrow> string" where
  "show_int i = (if i < 0 then CHR ''-'' # show_nat (nat (- i)) else show_nat (nat i))"

text \<open>
  isPortAvailable. The promise's executor creates a server and calls
  \<open>server.listen(port, ...)\<close>. For a port outside 0..65535 \<open>listen\<close> throws a
  \<open>RangeError\<close> at once, before the \<open>error\<close> handler is attached, so the promise
  is rejected and the \<open>await\<close> of the caller throws. For port 0 the system picks
  a free port, so the bind succeeds. For every other port the promise resolves
  to \<open>true\<close> when the server listens and to \<open>false\<close> when an \<open>error\<close> event
  arrives. Ports are natural numbers here; \<open>listen\<close> refuses negative and
  fractional numbers as it refuses numbers above 65535.
\<close>

definition isPortAvailable :: "env \<Rightarrow> nat \<Rightarrow> error + bool" where
  "isPortAvailable w port =
     (if port > 65535 then Inl (RangeError port)
      else if port = 0 then Inr True
      else Inr (bindSucceeds w port))"

text \<open>
  The scan \<open>for (let port = 9222; port <= 9999; port++)\<close>: the first port whose
  probe succeeds ends the loop; a probe that throws would end the operation.
\<close>

fun first_available :: "env \<Rightarrow> nat list \<Rightarrow> (error + nat option) \<times> event list" where
  "first_available w [] = (Inr None, [])"
| "first_available w (port # ports) =
     (case isPortAvailable w port of
        Inl e \<Rightarrow> (Inl e, [Probed port])
      | Inr available \<Rightarrow>
          if available then (Inr (Some port), [Probed port])
          else (case first_available w ports of (found, ev) \<Rightarrow> (found, Probed port # ev)))"

definition scan_ports :: "env \<Rightarrow> (error + nat) \<times> event list" where
  "scan_ports w =
     (case first_available w [9222..<10000] of
        (Inl e, ev) \<Rightarrow> (Inl e, ev)
      | (Inr None, ev) \<Rightarrow> (Inl NoPortAvailable, ev)
      | (Inr (Some port), ev) \<Rightarrow> (Inr port, ev))"

text \<open>
  The port selection at the head of startElectronApp. \<open>if (!debugPort)\<close> takes the
  scanning branch for an omitted port and for port 0; any other port is
  probed once: a probe that throws ends the operation with its error, a probe
  that answers \<open>false\<close> ends it with the port-unavailable error.
\<close>

definition choose_port :: "env \<Rightarrow> nat option \<Rightarrow> (error + nat) \<times> event list" where
  "choose_port w debugPort' =
     (case debugPort' of
        None \<Rightarrow> scan_ports w
      | Some port \<Rightarrow>
          if port = 0 then scan_ports w
          else
            (case isPortAvailable w port of
               Inl e \<Rightarrow> (Inl e, [Probed port])
             | Inr available \<Rightarrow>
                 if available then (Inr port, [Probed port])
                 else (Inl (PortUnavailable port), [Probed port])))"

text \<open>
  The start-up loop \<open>while (Date.now() - startTime < startupTimeout)\<close>: one
  discovery attempt per round, a pause of 500 ms after a failed one.
\<close>

function poll_targets ::
  "env \<Rightarrow> int \<Rightarrow> int \<Rightarrow> int \<Rightarrow> ElectronProcess \<Rightarrow> bool \<times> ElectronProcess \<times> event list" where
  "poll_targets w startTime' startupTimeout t p =
     (if t - startTime' < startupTimeout
      then (case updateCDPTargets w t p of
              (Inr ts, p1, ev1) \<Rightarrow> (True, p1, ev1)
            | (Inl e, p1, ev1) \<Rightarrow>
                (case poll_targets w startTime' startupTimeout (t + 500) p1 of
                   (connected', p2, ev2) \<Rightarrow> (connected', p2, ev1 @ ev2)))
      else (False, p, []))"
  by pat_completeness auto
termination
  by (relation "measure (\<lambda>(w, startTime', startupTimeout, t, p). nat (startTime' + startupTimeout - t))")
    auto

declare poll_targets.simps [simp del]

text \<open>
  startElectronApp. The identifier is \<open>`electron-${Date.now()}`\<close>. A failure of the
  port selection is thrown before anything is spawned or registered. The record
  is put into the map right after the spawn; the loop then mutates that same
  object, so the map holds the record as the loop leaves it. The timeout
  defaults to 30000.
\<close>

definition startElectronApp ::
  "env \<Rightarrow> int \<Rightarrow> McpRuntimeState \<Rightarrow> string \<Rightarrow> nat option \<Rightarrow> int option
     \<Rightarrow> (error + ElectronProcess) \<times> McpRuntimeState \<times> event list" where
  "startElectronApp w now state appPath' debugPort' startupTimeout =
     (let ident = ''electron-'' @ show_int now in
      case choose_port w debugPort' of
        (Inl e, ev0) \<Rightarrow> (Inl e, state, ev0)
      | (Inr port, ev0) \<Rightarrow>
          (let args = [''--enable-logging'', ''--remote-debugging-port='' @ show_nat port, appPath'];
               electronPath = electronExecutablePath w;
               electronProc = spawn w electronPath args;
               electronProcess =
                 \<lparr>id' = ident, process = electronProc, name = basename w appPath',
                  status = running, pid = child_pid electronProc, debugPort = Some port,
                  startTime = now, logs = [], appPath = appPath', cdpClient = None,
                  targets = None, lastTargetUpdate = None\<rparr>;
               registered = (electronProcesses state)(ident \<mapsto> electronProcess);
               limit = (case startupTimeout of None \<Rightarrow> 30000 | Some ms \<Rightarrow> ms)
           in case poll_targets w now limit now electronProcess of
                (connected', p1, ev1) \<Rightarrow>
                  (Inr p1, state\<lparr>electronProcesses := registered(ident \<mapsto> p1)\<rparr>,
                   ev0 @ [Spawned electronPath args] @ ev1)))"

text \<open>
  stopElectronApp. For a known identifier the session, if any, is closed (an
  exception of \<open>close\<close> is caught and logged), the child is killed, the object is
  marked stopped and its entry is deleted from the map.
\<close>

definition stopElectronApp :: "McpRuntimeState \<Rightarrow> string \<Rightarrow> bool \<times> McpRuntimeState \<times> event list" where
  "stopElectronApp state processId =
     (case electronProcesses state processId of
        None \<Rightarrow> (False, state, [])
      | Some p \<Rightarrow>
          (let closing = (case cdpClient p of None \<Rightarrow> [] | Some client \<Rightarrow> [Closed client])
           in (True,
               state\<lparr>electronProcesses := (electronProcesses state)(processId := None)\<rparr>,
               closing @ [Killed (process p)])))"

section \<open>Debug information of one process (getElectronDebugInfo)\<close>

text \<open>The local variables of type \<open>number | 'unavailable'\<close>.\<close>

datatype metric = unavailable | number real

definition webContents_of :: "ElectronProcess \<Rightarrow> ElectronWebContentsInfo list" where
  "webContents_of p =
     (case targets p of
        Some ts \<Rightarrow>
          map (\<lambda>(index, target).
                 \<lparr>ElectronWebContentsInfo.id' = index + 1,
                  url = CDPTarget.url target,
                  title = CDPTarget.title target,
                  debuggable =
                    (case webSocketDebuggerUrl target of None \<Rightarrow> False | Some u \<Rightarrow> u \<noteq> []),
                  debugPort = debugPort p,
                  targetId' = Some (CDPTarget.id' target)\<rparr>)
              (enumerate 0 ts)
      | None \<Rightarrow>
          [\<lparr>ElectronWebContentsInfo.id' = 1, url = ''file://'' @ appPath p, title = name p,
            debuggable = True, debugPort = debugPort p, targetId' = None\<rparr>])"

text \<open>
  The block that asks the session for \<open>Performance.getMetrics\<close>. The four
  variables start as \<open>'unavailable'\<close>; a rejected command is caught and leaves
  them so; a metric found in the reply sets the main value and half of it as the
  renderer value. The result lists main CPU, main memory, renderer CPU and
  renderer memory.
\<close>

definition read_metrics ::
  "env \<Rightarrow> ElectronProcess \<Rightarrow> (metric \<times> metric \<times> metric \<times> metric) \<times> event list" where
  "read_metrics w p =
     (case cdpClient p of
        None \<Rightarrow> ((unavailable, unavailable, unavailable, unavailable), [])
      | Some client \<Rightarrow>
          (case client_send w client ''Performance.getMetrics'' None of
             Inl e \<Rightarrow>
               ((unavailable, unavailable, unavailable, unavailable),
                [Sent client ''Performance.getMetrics'' None])
           | Inr (OtherReply r) \<Rightarrow>
               ((unavailable, unavailable, unavailable, unavailable),
                [Sent client ''Performance.getMetrics'' None])
           | Inr (MetricsReply metrics) \<Rightarrow>
               (let cpuMetric = find (\<lambda>m. fst m = ''CPUUsage'') metrics;
                    memoryMetric = find (\<lambda>m. fst m = ''JSHeapUsedSize'') metrics;
                    (mainCpuUsage, rendererCpuUsage) =
                      (case cpuMetric of
                         None \<Rightarrow> (unavailable, unavailable)
                       | Some m \<Rightarrow> (number (snd m), number (snd m * 0.5)));
                    (mainMemoryUsage, rendererMemoryUsage) =
                      (case memoryMetric of
                         None \<Rightarrow> (unavailable, unavailable)
                       | Some m \<Rightarrow> (number (snd m), number (snd m * 0.5)))
                in ((mainCpuUsage, mainMemoryUsage, rendererCpuUsage, rendererMemoryUsage),
                    [Sent client ''Performance.getMetrics'' None]))))"

text \<open>\<open>typeof x === 'number' ? x : 0\<close>, as the returned object is built.\<close>

definition number_or_zero :: "metric \<Rightarrow> real" where
  "number_or_zero x = (case x of number v \<Rightarrow> v | unavailable \<Rightarrow> 0)"

text \<open>
  getElectronDebugInfo: \<open>null\<close> for an unknown or not running process; otherwise a
  refresh of the targets whose failure is only logged, the web contents derived
  from the cache, and the metrics. \<open>electronProcess.pid || 0\<close> is 0 for an
  undefined pid.
\<close>

definition getElectronDebugInfo ::
  "env \<Rightarrow> int \<Rightarrow> McpRuntimeState \<Rightarrow> string
     \<Rightarrow> ElectronDebugInfo option \<times> McpRuntimeState \<times> event list" where
  "getElectronDebugInfo w now state processId =
     (case electronProcesses state processId of
        None \<Rightarrow> (None, state, [])
      | Some p0 \<Rightarrow>
          if status p0 \<noteq> running then (None, state, [])
          else
            (case updateCDPTargets w now p0 of
               (refreshed, p, ev1) \<Rightarrow>
                 (case read_metrics w p of
                    ((mainCpuUsage, mainMemoryUsage, rendererCpuUsage, rendererMemoryUsage), ev2) \<Rightarrow>
                      (let pid0 = (case pid p of None \<Rightarrow> 0 | Some n \<Rightarrow> n) in
                       (Some \<lparr>webContents = webContents_of p,
                              processes =
                                \<lparr>main =
                                   \<lparr>ProcessInfo.pid = pid0,
                                    cpuUsage = number_or_zero mainCpuUsage,
                                    memoryUsage = number_or_zero mainMemoryUsage,
                                    status = ''running''\<rparr>,
                                 renderers =
                                   [\<lparr>ProcessInfo.pid = pid0 + 1,
                                     cpuUsage = number_or_zero rendererCpuUsage,
                                     memoryUsage = number_or_zero rendererMemoryUsage,
                                     status = ''running''\<rparr>]\<rparr>\<rparr>,
                        state\<lparr>electronProcesses := (electronProcesses state)(processId \<mapsto> p)\<rparr>,
                        ev1 @ ev2)))))"


section \<open>Resource routing (src/resourceRouting.ts)\<close>

definition ELECTRON_RESOURCES_INFO :: string where
  "ELECTRON_RESOURCES_INFO = ''electron://info''"

definition ELECTRON_RESOURCES_PROCESS :: string where
  "ELECTRON_RESOURCES_PROCESS = ''electron://process/''"

definition ELECTRON_RESOURCES_LOGS :: string where
  "ELECTRON_RESOURCES_LOGS = ''electron://logs/''"

definition ELECTRON_RESOURCES_CDP :: string where
  "ELECTRON_RESOURCES_CDP = ''electron://cdp/''"

definition ELECTRON_RESOURCES_TARGETS :: string where
  "ELECTRON_RESOURCES_TARGETS = ''electron://targets''"

datatype ParsedResourceRoute =
    Route_info
  | Route_targets
  | Route_process string
  | Route_logs string
  | Route_cdp string string "string option"
  | Route_invalidCdp
  | Route_unknown

text \<open>
  The string methods of the source: \<open>s.startsWith(prefix)\<close>, \<open>s.split('/')\<close> (which
  yields one segment more than there are separators, empty segments included)
  and \<open>segments.join('/')\<close>; \<open>s.slice(n)\<close> is \<open>drop n s\<close>.
\<close>

definition startsWith :: "string \<Rightarrow> string \<Rightarrow> bool" where
  "startsWith s prefix' = (take (length prefix') s = prefix')"

fun split :: "char \<Rightarrow> string \<Rightarrow> string list" where
  "split sep [] = [[]]"
| "split sep (c # cs) =
     (if c = sep then [] # split sep cs
      else (case split sep cs of
              seg # segs \<Rightarrow> (c # seg) # segs
            | [] \<Rightarrow> [[c]]))"

fun join :: "string \<Rightarrow> string list \<Rightarrow> string" where
  "join sep [] = []"
| "join sep [seg] = seg"
| "join sep (seg # next' # segs) = seg @ sep @ join sep (next' # segs)"

text \<open>
  parseElectronResourceUri. A \<open>process\<close> or \<open>logs\<close> URI with an empty identifier
  falls through to the checks after it and ends as \<open>unknown\<close>.
\<close>

definition parseElectronResourceUri :: "string \<Rightarrow> ParsedResourceRoute" where
  "parseElectronResourceUri uri =
     (if uri = ELECTRON_RESOURCES_INFO then Route_info
      else if uri = ELECTRON_RESOURCES_TARGETS then Route_targets
      else if startsWith uri ELECTRON_RESOURCES_CDP then
        (let path = drop (length ELECTRON_RESOURCES_CDP) uri;
             segments = split CHR ''/'' path
         in case segments of
              processId # targetId # commandSegments \<Rightarrow>
                if processId = [] \<or> targetId = [] then Route_invalidCdp
                else
                  (let commandPath =
                         (if length commandSegments > 0
                          then Some (join ''/'' commandSegments) else None)
                   in case commandPath of
                        None \<Rightarrow> Route_cdp processId targetId None
                      | Some cp \<Rightarrow>
                          if cp = [] then Route_cdp processId targetId None
                          else Route_cdp processId targetId (Some cp))
            | _ \<Rightarrow> Route_invalidCdp)
      else if startsWith uri ELECTRON_RESOURCES_PROCESS
              \<and> drop (length ELECTRON_RESOURCES_PROCESS) uri \<noteq> []
        then Route_process (drop (length ELECTRON_RESOURCES_PROCESS) uri)
      else if startsWith uri ELECTRON_RESOURCES_LOGS
              \<and> drop (length ELECTRON_RESOURCES_LOGS) uri \<noteq> []
        then Route_logs (drop (length ELECTRON_RESOURCES_LOGS) uri)
      else Route_unknown)"

section \<open>Reading a cdp resource (the \<open>cdp\<close> case of the ReadResource handler)\<close>

definition requireRunningElectronProcess :: "McpRuntimeState \<Rightarrow> string \<Rightarrow> error + ElectronProcess" where
  "requireRunningElectronProcess state processId =
     (case electronProcesses state processId of
        None \<Rightarrow> Inl (ProcessNotFound processId)
      | Some p \<Rightarrow> if status p \<noteq> running then Inl (ProcessNotFound processId) else Inr p)"

text \<open>
  The check of the command path: \<open>commandPath.split('/')\<close> must have exactly two
  segments, both non-empty; they are the domain and the method.
\<close>

definition commandParts :: "string \<Rightarrow> error + string \<times> string" where
  "commandParts commandPath =
     (case split CHR ''/'' commandPath of
        [domain, method'] \<Rightarrow>
          if domain = [] \<or> method' = [] then Inl (InvalidCdpCommand commandPath)
          else Inr (domain, method')
      | _ \<Rightarrow> Inl (InvalidCdpCommand commandPath))"

datatype resource_payload = TargetInfo CDPTarget | CommandResult reply

text \<open>
  The handler's \<open>cdp\<close> case for a route \<open>{processId, targetId, commandPath?}\<close>. The
  process object is the one in the map, so what the operations change on it is
  visible in the map afterwards. \<open>!route.commandPath\<close> holds for an absent and for
  an empty command path.
\<close>

definition readCdpResource ::
  "env \<Rightarrow> int \<Rightarrow> McpRuntimeState \<Rightarrow> string \<Rightarrow> string \<Rightarrow> string option
     \<Rightarrow> (error + resource_payload) \<times> McpRuntimeState \<times> event list" where
  "readCdpResource w now state processId targetId commandPath =
     (case requireRunningElectronProcess state processId of
        Inl e \<Rightarrow> (Inl e, state, [])
      | Inr p \<Rightarrow>
          (case (case commandPath of None \<Rightarrow> None | Some cp \<Rightarrow> if cp = [] then None else Some cp) of
             None \<Rightarrow>
               (case (if find_target (targets p) targetId = None
                         \<and> (case debugPort p of None \<Rightarrow> False | Some port \<Rightarrow> port \<noteq> 0)
                      then (case updateCDPTargets w now p of (refreshed, p', ev) \<Rightarrow> (p', ev))
                      else (p, [])) of
                  (p1, ev1) \<Rightarrow>
                    (case find_target (targets p1) targetId of
                       None \<Rightarrow>
                         (Inl (TargetNotFoundInProcess targetId processId),
                          state\<lparr>electronProcesses := (electronProcesses state)(processId \<mapsto> p1)\<rparr>,
                          ev1)
                     | Some target \<Rightarrow>
                         (Inr (TargetInfo target),
                          state\<lparr>electronProcesses := (electronProcesses state)(processId \<mapsto> p1)\<rparr>,
                          ev1)))
           | Some cp \<Rightarrow>
               (case commandParts cp of
                  Inl e \<Rightarrow> (Inl e, state, [])
                | Inr (domain, method') \<Rightarrow>
                    (case executeCDPCommand w now p targetId domain method' None of
                       (Inl e, p1, ev1) \<Rightarrow>
                         (Inl (CdpCommandFailed e),
                          state\<lparr>electronProcesses := (electronProcesses state)(processId \<mapsto> p1)\<rparr>,
                          ev1)
                     | (Inr r, p1, ev1) \<Rightarrow>
                         (Inr (CommandResult r),
                          state\<lparr>electronProcesses := (electronProcesses state)(processId \<mapsto> p1)\<rparr>,
                          ev1)))))"

section \<open>Example inputs\<close>

definition target_t1 :: CDPTarget where
  "target_t1 =
     \<lparr>CDPTarget.id' = ''t1'', type' = ''page'', title = ''Main'',
      url = ''file:///apps/demo/index.html'',
      webSocketDebuggerUrl = Some ''ws://localhost:9222/devtools/page/t1'',
      devtoolsFrontendUrl = None\<rparr>"

definition target_t2 :: CDPTarget where
  "target_t2 =
     \<lparr>CDPTarget.id' = ''t2'', type' = ''page'', title = ''Settings'',
      url = ''file:///apps/demo/settings.html'',
      webSocketDebuggerUrl = None, devtoolsFrontendUrl = None\<rparr>"

text \<open>
  An environment in which the debugging port does not answer and every port but
  9222 is free, and one in which discovery lists both targets. In both, sessions
  open and commands are answered, except \<open>Performance.getMetrics\<close>, which is
  rejected.
\<close>

definition env_down :: env where
  "env_down =
     \<lparr>bindSucceeds = (\<lambda>port. port \<noteq> 9222),
      fetch = (\<lambda>t port. Rejected ''ECONNREFUSED''),
      CDP = (\<lambda>target port. Inr (CDPClient 7)),
      send = (\<lambda>client method' ps.
                if method' = ''Performance.getMetrics'' then Inl ''not supported''
                else Inr (OtherReply ''{}'')),
      spawn = (\<lambda>exe args. ChildProcess 1 (Some 4242)),
      electronExecutablePath = ''electron'',
      basename = (\<lambda>path. ''demo'')\<rparr>"

definition env_up :: env where
  "env_up = env_down\<lparr>fetch := (\<lambda>t port. Response True ''OK'' (Some [target_t1, target_t2]))\<rparr>"

definition env_not_ok :: env where
  "env_not_ok = env_down\<lparr>fetch := (\<lambda>t port. Response False ''Service Unavailable'' None)\<rparr>"

text \<open>
  A running process on port 9222 whose cache (target \<open>t1\<close>) was filled at time
  1000; the same process with an open session; and a store that holds it.
\<close>

definition proc_cached :: ElectronProcess where
  "proc_cached =
     \<lparr>id' = ''electron-1000'', process = ChildProcess 1 (Some 4242), name = ''demo'',
      status = running, pid = Some 4242, debugPort = Some 9222, startTime = 1000,
      logs = [], appPath = ''/apps/demo'', cdpClient = None,
      targets = Some [target_t1], lastTargetUpdate = Some 1000\<rparr>"

definition proc_session :: ElectronProcess where
  "proc_session = proc_cached\<lparr>cdpClient := Some (CDPClient 3)\<rparr>"

definition state_one :: McpRuntimeState where
  "state_one = \<lparr>electronProcesses = [''electron-1000'' \<mapsto> proc_session]\<rparr>"


text \<open>
  An environment whose metrics reply lacks the CPU metric, and two starts that
  read the same clock value: the second runs on the store the first one left.
\<close>

definition env_heap_only :: env where
  "env_heap_only =
     env_down\<lparr>send := (\<lambda>client method' ps. Inr (MetricsReply [(''JSHeapUsedSize'', 52428800)]))\<rparr>"

definition first_start :: "(error + ElectronProcess) \<times> McpRuntimeState \<times> event list" where
  "first_start = startElectronApp env_up 5000 createRuntimeState ''/apps/one'' (Some 9300) None"

definition second_start :: "(error + ElectronProcess) \<times> McpRuntimeState \<times> event list" where
  "second_start = startElectronApp env_up 5000 (fst (snd first_start)) ''/apps/two'' (Some 9301) None"

section \<open>Properties of log capture\<close>

lemma logs_addLog:
  "logs (addLog p l) = drop (Suc (length (logs p)) - MAX_LOG_ENTRIES) (logs p @ [l])"
  by (simp add: addLog_def Let_def)

lemma logs_foldl_addLog:
  "ls \<noteq> [] \<Longrightarrow>
   logs (foldl addLog p ls) =
     drop (length (logs p) + length ls - MAX_LOG_ENTRIES) (logs p @ ls)"
proof (induction ls arbitrary: p)
  case Nil
  then show ?case by simp
next
  case (Cons l ls)
  show ?case
  proof (cases "ls = []")
    case True
    then show ?thesis by (simp add: logs_addLog)
  next
    case False
    let ?k = "Suc (length (logs p)) - MAX_LOG_ENTRIES"
    have k: "?k \<le> length (logs p @ [l])" by simp
    have IH: "logs (foldl addLog (addLog p l) ls) =
            drop (length (logs (addLog p l)) + length ls - MAX_LOG_ENTRIES)
              (logs (addLog p l) @ ls)"
      using Cons.IH [OF False] .
    have A: "logs (addLog p l) @ ls = drop ?k (logs p @ l # ls)"
      using k by (simp add: logs_addLog MAX_LOG_ENTRIES_def)
    have L: "length (logs (addLog p l)) = Suc (length (logs p)) - ?k"
      by (simp add: logs_addLog)
    have N: "Suc (length (logs p)) - ?k + length ls - MAX_LOG_ENTRIES + ?k =
        length (logs p) + length (l # ls) - MAX_LOG_ENTRIES"
      by (simp add: MAX_LOG_ENTRIES_def)
    have "logs (foldl addLog p (l # ls)) =
        drop (Suc (length (logs p)) - ?k + length ls - MAX_LOG_ENTRIES)
          (drop ?k (logs p @ l # ls))"
      by (simp only: foldl_Cons IH A L)
    also have "\<dots> = drop (length (logs p) + length (l # ls) - MAX_LOG_ENTRIES)
          (logs p @ l # ls)"
      by (simp only: drop_drop N)
    finally show ?thesis .
  qed
qed

lemma length_logs_addLog: "length (logs (addLog p l)) \<le> MAX_LOG_ENTRIES"
  by (simp add: logs_addLog MAX_LOG_ENTRIES_def)

lemma foldl_addLog_snoc: "foldl addLog p (ls @ [l]) = addLog (foldl addLog p ls) l"
  by simp

text \<open>
  C6. Whatever the record and whatever lines are appended: after at least one
  append the buffer holds at most 1000 entries, is not empty and ends with the
  line appended last; one append keeps the newest entries of the old buffer
  followed by the new line and drops only from the front; and a buffer that
  starts empty, as it does in a record made by start, holds after any sequence
  of appends exactly the last 1000 (or fewer) lines of that sequence, in order.
\<close>

theorem addLog_bounded_keeps_newest:
  "length (logs (foldl addLog p (ls @ [l]))) \<le> 1000
   \<and> logs (foldl addLog p (ls @ [l])) \<noteq> []
   \<and> last (logs (foldl addLog p (ls @ [l]))) = l
   \<and> logs (addLog p l) = drop (length (logs p) + 1 - 1000) (logs p @ [l])
   \<and> length (logs (foldl addLog (p\<lparr>logs := []\<rparr>) ls)) \<le> 1000
   \<and> logs (foldl addLog (p\<lparr>logs := []\<rparr>) ls) = drop (length ls - 1000) ls"
proof -
  let ?q = "foldl addLog p ls"
  have a: "length (logs (addLog ?q l)) \<le> 1000"
    using length_logs_addLog [of ?q l] by (simp add: MAX_LOG_ENTRIES_def)
  have d: "Suc (length (logs ?q)) - MAX_LOG_ENTRIES < length (logs ?q @ [l])"
    by (simp add: MAX_LOG_ENTRIES_def)
  have b: "logs (addLog ?q l) \<noteq> []"
    using d by (simp add: logs_addLog)
  have c: "last (logs (addLog ?q l)) = l"
    using d by (simp add: logs_addLog last_drop)
  have e: "logs (addLog p l) = drop (length (logs p) + 1 - 1000) (logs p @ [l])"
    by (simp add: logs_addLog MAX_LOG_ENTRIES_def)
  have g: "logs (foldl addLog (p\<lparr>logs := []\<rparr>) ls) = drop (length ls - 1000) ls"
  proof (cases "ls = []")
    case True
    then show ?thesis by simp
  next
    case False
    then show ?thesis
      using logs_foldl_addLog [of ls "p\<lparr>logs := []\<rparr>"] by (simp add: MAX_LOG_ENTRIES_def)
  qed
  have f: "length (logs (foldl addLog (p\<lparr>logs := []\<rparr>) ls)) \<le> 1000"
    by (simp add: g)
  show ?thesis
    using a b c e f g by (simp only: foldl_addLog_snoc) simp
qed

section \<open>Properties of target discovery\<close>

text \<open>
  C5. A refresh on a record with a usable port: when the discovery request is
  rejected (transport error) or answered with a response that is not ok, the
  refresh fails with the discovery error and returns the record exactly as it
  was, so the cached list and its timestamp are unchanged; when the request
  succeeds, the cache becomes the list just received, nothing of the old list
  remains, and the timestamp becomes the time of the refresh. Whatever the
  failure (these two, a missing port, a body that is not JSON), a failed refresh
  returns the record unchanged.
\<close>

theorem updateCDPTargets_atomic:
  "(debugPort p = Some port \<and> port \<noteq> 0 \<and> fetch w now port = Rejected msg \<longrightarrow>
      updateCDPTargets w now p = (Inl (DiscoveryFailed (FetchRejected msg)), p, [Fetched port]))
   \<and> (debugPort p = Some port \<and> port \<noteq> 0 \<and> fetch w now port = Response False st body \<longrightarrow>
      updateCDPTargets w now p = (Inl (DiscoveryFailed (FailedToGetTargets st)), p, [Fetched port]))
   \<and> (debugPort p = Some port \<and> port \<noteq> 0 \<and> fetch w now port = Response True st (Some ts) \<longrightarrow>
      updateCDPTargets w now p =
        (Inr ts, p\<lparr>targets := Some ts, lastTargetUpdate := Some now\<rparr>, [Fetched port]))
   \<and> (\<forall>e. fst (updateCDPTargets w now p) = Inl e \<longrightarrow>
        fst (snd (updateCDPTargets w now p)) = p)"
  by (auto simp: updateCDPTargets_def split: option.splits fetch_result.splits if_splits)

theorem updateCDPTargets_atomic_witness:
  "updateCDPTargets env_down 7000 proc_cached =
     (Inl (DiscoveryFailed (FetchRejected ''ECONNREFUSED'')), proc_cached, [Fetched 9222])
   \<and> updateCDPTargets env_not_ok 7000 proc_cached =
     (Inl (DiscoveryFailed (FailedToGetTargets ''Service Unavailable'')), proc_cached, [Fetched 9222])
   \<and> updateCDPTargets env_up 7000 proc_cached =
     (Inr [target_t1, target_t2],
      proc_cached\<lparr>targets := Some [target_t1, target_t2], lastTargetUpdate := Some 7000\<rparr>,
      [Fetched 9222])
   \<and> targets (fst (snd (updateCDPTargets env_down 7000 proc_cached))) = Some [target_t1]
   \<and> lastTargetUpdate (fst (snd (updateCDPTargets env_down 7000 proc_cached))) = Some 1000"
  using updateCDPTargets_atomic [of proc_cached 9222 env_down 7000 "''ECONNREFUSED''"]
    updateCDPTargets_atomic [of proc_cached 9222 env_not_ok 7000 _ "''Service Unavailable''" None]
    updateCDPTargets_atomic [of proc_cached 9222 env_up 7000 _ "''OK''" _ "[target_t1, target_t2]"]
  by (simp add: proc_cached_def env_down_def env_up_def env_not_ok_def)

section \<open>Properties of connecting to a target\<close>

text \<open>
  C1, as stated, fails. The record \<open>proc_cached\<close> has a cached list that holds
  target \<open>t1\<close>; at time 10000 the cache (stamped 1000) is older than 5000 ms, and
  the discovery request is rejected. The claim has connect go on to the stale
  cache, find \<open>t1\<close> there and not fail for the refresh; the code fails with the
  error of the refresh, although \<open>t1\<close> is in the cache.
\<close>

theorem connect_stale_refresh_failure_counterexample:
  "find_target (targets proc_cached) ''t1'' = Some target_t1
   \<and> needs_refresh 10000 proc_cached
   \<and> fetch env_down 10000 9222 = Rejected ''ECONNREFUSED''
   \<and> connectToCDPTarget env_down 10000 proc_cached ''t1'' =
       (Inl (DiscoveryFailed (FetchRejected ''ECONNREFUSED'')), proc_cached, [Fetched 9222])"
  by (simp add: connectToCDPTarget_def updateCDPTargets_def needs_refresh_def find_target_def
      proc_cached_def env_down_def target_t1_def)

text \<open>
  C1, amended. For a record with a usable port and a cached target list older
  than 5000 ms, when the refresh that connect attempts fails, connect fails with
  the error of that refresh, whatever the target asked for and whether or not
  it is in the stale cache: the cache is not looked up, no session is opened
  (the only event is the discovery request) and the record is returned
  unchanged.
\<close>

theorem connect_propagates_refresh_failure:
  "debugPort p = Some port \<Longrightarrow> port \<noteq> 0 \<Longrightarrow> targets p = Some ts \<Longrightarrow>
   lastTargetUpdate p = Some last' \<Longrightarrow> now - last' > 5000 \<Longrightarrow>
   fst (updateCDPTargets w now p) = Inl e \<Longrightarrow>
   connectToCDPTarget w now p targetId = (Inl e, p, [Fetched port])"
  by (auto simp: connectToCDPTarget_def updateCDPTargets_def needs_refresh_def
      split: option.splits fetch_result.splits if_splits)

theorem connect_propagates_refresh_failure_witness:
  "debugPort proc_cached = Some 9222 \<and> targets proc_cached = Some [target_t1]
   \<and> lastTargetUpdate proc_cached = Some 1000 \<and> (10000::int) - 1000 > 5000
   \<and> fst (updateCDPTargets env_down 10000 proc_cached) =
       Inl (DiscoveryFailed (FetchRejected ''ECONNREFUSED''))
   \<and> connectToCDPTarget env_down 10000 proc_cached ''t1'' =
       (Inl (DiscoveryFailed (FetchRejected ''ECONNREFUSED'')), proc_cached, [Fetched 9222])"
proof -
  have h1: "debugPort proc_cached = Some 9222" by (simp add: proc_cached_def)
  have h2: "(9222::nat) \<noteq> 0" by simp
  have h3: "targets proc_cached = Some [target_t1]" by (simp add: proc_cached_def)
  have h4: "lastTargetUpdate proc_cached = Some 1000" by (simp add: proc_cached_def)
  have h5: "(10000::int) - 1000 > 5000" by simp
  have h6: "fst (updateCDPTargets env_down 10000 proc_cached) =
      Inl (DiscoveryFailed (FetchRejected ''ECONNREFUSED''))"
    by (simp add: updateCDPTargets_def proc_cached_def env_down_def)
  show ?thesis
    using h1 h3 h4 h5 h6
      connect_propagates_refresh_failure [OF h1 h2 h3 h4 h5 h6, of "''t1''"]
    by simp
qed

section \<open>Properties of command execution\<close>

lemma connect_success_session:
  "connectToCDPTarget w now p targetId = (Inr client, p1, ev1) \<Longrightarrow> cdpClient p1 = Some client"
  by (auto simp: connectToCDPTarget_def split: option.splits if_splits sum.splits prod.splits)

lemma execute_with_session:
  "cdpClient p = Some client \<Longrightarrow>
   executeCDPCommand w now p targetId domain command params =
     (client_send w client (domain @ ''.'' @ command)
        (Some (case params of None \<Rightarrow> [] | Some given \<Rightarrow> given)),
      p,
      [Sent client (domain @ ''.'' @ command)
        (Some (case params of None \<Rightarrow> [] | Some given \<Rightarrow> given))])"
  by (simp add: executeCDPCommand_def Let_def)

lemma execute_without_session:
  "cdpClient p = None \<Longrightarrow>
   executeCDPCommand w now p targetId domain command params =
     (case connectToCDPTarget w now p targetId of
        (Inl e, p1, ev1) \<Rightarrow> (Inl e, p1, ev1)
      | (Inr client, p1, ev1) \<Rightarrow>
          (client_send w client (domain @ ''.'' @ command)
             (Some (case params of None \<Rightarrow> [] | Some given \<Rightarrow> given)),
           p1,
           ev1 @ [Sent client (domain @ ''.'' @ command)
             (Some (case params of None \<Rightarrow> [] | Some given \<Rightarrow> given))]))"
  by (simp add: executeCDPCommand_def Let_def split: prod.splits sum.splits)

text \<open>
  C9. Whatever the record, the target, the domain, the method and the
  parameters: with an active session on the record, execute sends on that
  session, leaves the record as it is and causes this one event only; with no
  session, it calls connect, and when connect yields a session (stored on the
  record as its active session) it sends on that one, while a failure of connect
  is the result of execute and nothing is sent. What is sent is one command whose
  name is the domain, a dot and the method, with the parameters as given (the
  empty object when the caller gives none). The result is the outcome of that
  send: a reply is returned as the session gave it, a rejection as the session's
  error.
\<close>

theorem executeCDPCommand_forwards:
  "(cdpClient p = Some client \<longrightarrow>
      executeCDPCommand w now p targetId domain command (Some ps) =
        (client_send w client (domain @ ''.'' @ command) (Some ps), p,
         [Sent client (domain @ ''.'' @ command) (Some ps)]))
   \<and> (cdpClient p = None \<and> connectToCDPTarget w now p targetId = (Inr client, p1, ev1) \<longrightarrow>
      executeCDPCommand w now p targetId domain command (Some ps) =
        (client_send w client (domain @ ''.'' @ command) (Some ps), p1,
         ev1 @ [Sent client (domain @ ''.'' @ command) (Some ps)])
      \<and> cdpClient p1 = Some client)
   \<and> (cdpClient p = None \<and> connectToCDPTarget w now p targetId = (Inl e, p1, ev1) \<longrightarrow>
      executeCDPCommand w now p targetId domain command (Some ps) = (Inl e, p1, ev1))
   \<and> (\<forall>r. send w client method' (Some ps) = Inr r \<longrightarrow>
         client_send w client method' (Some ps) = Inr r)
   \<and> (\<forall>msg. send w client method' (Some ps) = Inl msg \<longrightarrow>
         client_send w client method' (Some ps) = Inl (SessionError msg))
   \<and> executeCDPCommand w now p targetId domain command None =
       executeCDPCommand w now p targetId domain command (Some [])"
proof -
  have a: "cdpClient p = Some client \<longrightarrow>
      executeCDPCommand w now p targetId domain command (Some ps) =
        (client_send w client (domain @ ''.'' @ command) (Some ps), p,
         [Sent client (domain @ ''.'' @ command) (Some ps)])"
    by (simp add: execute_with_session)
  have b: "cdpClient p = None \<and> connectToCDPTarget w now p targetId = (Inr client, p1, ev1) \<longrightarrow>
      executeCDPCommand w now p targetId domain command (Some ps) =
        (client_send w client (domain @ ''.'' @ command) (Some ps), p1,
         ev1 @ [Sent client (domain @ ''.'' @ command) (Some ps)])
      \<and> cdpClient p1 = Some client"
    using connect_success_session [of w now p targetId client p1 ev1]
    by (simp add: execute_without_session)
  have c: "cdpClient p = None \<and> connectToCDPTarget w now p targetId = (Inl e, p1, ev1) \<longrightarrow>
      executeCDPCommand w now p targetId domain command (Some ps) = (Inl e, p1, ev1)"
    by (simp add: execute_without_session)
  have d: "\<forall>r. send w client method' (Some ps) = Inr r \<longrightarrow>
         client_send w client method' (Some ps) = Inr r"
    by (simp add: client_send_def)
  have e: "\<forall>msg. send w client method' (Some ps) = Inl msg \<longrightarrow>
         client_send w client method' (Some ps) = Inl (SessionError msg)"
    by (simp add: client_send_def)
  have f: "executeCDPCommand w now p targetId domain command None =
       executeCDPCommand w now p targetId domain command (Some [])"
    by (simp add: executeCDPCommand_def)
  show ?thesis using a b c d e f by blast
qed


theorem executeCDPCommand_forwards_witness:
  "executeCDPCommand env_up 1000 proc_session ''t1'' ''Runtime'' ''evaluate''
       (Some [(''expression'', JString ''1+1'')]) =
     (Inr (OtherReply ''{}''), proc_session,
      [Sent (CDPClient 3) ''Runtime.evaluate'' (Some [(''expression'', JString ''1+1'')])])
   \<and> executeCDPCommand env_up 1000 proc_cached ''t1'' ''Runtime'' ''evaluate''
       (Some [(''expression'', JString ''1+1'')]) =
     (Inr (OtherReply ''{}''), proc_cached\<lparr>cdpClient := Some (CDPClient 7)\<rparr>,
      [Connected ''t1'' 9222,
       Sent (CDPClient 7) ''Runtime.evaluate'' (Some [(''expression'', JString ''1+1'')])])
   \<and> executeCDPCommand env_up 1000 proc_cached ''zz'' ''Runtime'' ''evaluate''
       (Some [(''expression'', JString ''1+1'')]) =
     (Inl (TargetNotFound ''zz''), proc_cached, [])"
proof -
  have c1: "cdpClient proc_session = Some (CDPClient 3)"
    by (simp add: proc_session_def)
  have c2: "cdpClient proc_cached = None \<and>
      connectToCDPTarget env_up 1000 proc_cached ''t1'' =
        (Inr (CDPClient 7), proc_cached\<lparr>cdpClient := Some (CDPClient 7)\<rparr>, [Connected ''t1'' 9222])"
    by (simp add: connectToCDPTarget_def needs_refresh_def find_target_def proc_cached_def
        env_up_def env_down_def target_t1_def)
  have c3: "cdpClient proc_cached = None \<and>
      connectToCDPTarget env_up 1000 proc_cached ''zz'' =
        (Inl (TargetNotFound ''zz''), proc_cached, [])"
    by (simp add: connectToCDPTarget_def needs_refresh_def find_target_def proc_cached_def
        env_up_def env_down_def target_t1_def)
  have s3: "send env_up (CDPClient 3) ''Runtime.evaluate'' (Some [(''expression'', JString ''1+1'')]) = Inr (OtherReply ''{}'')"
    by (simp add: env_up_def env_down_def)
  have s7: "send env_up (CDPClient 7) ''Runtime.evaluate'' (Some [(''expression'', JString ''1+1'')]) = Inr (OtherReply ''{}'')"
    by (simp add: env_up_def env_down_def)
  show ?thesis
    using c1 c2 c3 s3 s7
      executeCDPCommand_forwards [of proc_session "CDPClient 3" env_up 1000 "''t1''" "''Runtime''"
        "''evaluate''" "[(''expression'', JString ''1+1'')]" _ _ _ "''Runtime.evaluate''"]
      executeCDPCommand_forwards [of proc_cached "CDPClient 7" env_up 1000 "''t1''" "''Runtime''"
        "''evaluate''" "[(''expression'', JString ''1+1'')]"
        "proc_cached\<lparr>cdpClient := Some (CDPClient 7)\<rparr>" "[Connected ''t1'' 9222]" _ "''Runtime.evaluate''"]
      executeCDPCommand_forwards [of proc_cached _ env_up 1000 "''zz''" "''Runtime''"
        "''evaluate''" "[(''expression'', JString ''1+1'')]" proc_cached "[]" "TargetNotFound ''zz''"]
    by simp
qed


text \<open>
  C10. On a record whose session is set, execute sends the command on that
  session and returns the outcome of the send; result and events are the same
  for every target identifier and every content of the cache (absent, empty,
  without the target, stale), the record is returned as given, the result is
  never the lookup failure of connect, and neither a discovery request nor the
  opening of a session is among the events.
\<close>

theorem execute_with_session_ignores_target:
  "cdpClient p = Some client \<Longrightarrow>
   executeCDPCommand w now p targetId domain command params =
     (client_send w client (domain @ ''.'' @ command)
        (Some (case params of None \<Rightarrow> [] | Some given \<Rightarrow> given)),
      p,
      [Sent client (domain @ ''.'' @ command)
        (Some (case params of None \<Rightarrow> [] | Some given \<Rightarrow> given))])
   \<and> executeCDPCommand w now (p\<lparr>targets := cache, lastTargetUpdate := stamp\<rparr>) otherTarget
         domain command params =
       (fst (executeCDPCommand w now p targetId domain command params),
        p\<lparr>targets := cache, lastTargetUpdate := stamp\<rparr>,
        snd (snd (executeCDPCommand w now p targetId domain command params)))
   \<and> fst (executeCDPCommand w now p targetId domain command params) \<noteq> Inl (TargetNotFound t)
   \<and> Fetched port \<notin> set (snd (snd (executeCDPCommand w now p targetId domain command params)))
   \<and> Connected target port
        \<notin> set (snd (snd (executeCDPCommand w now p targetId domain command params)))"
proof -
  assume c: "cdpClient p = Some client"
  have c': "cdpClient (p\<lparr>targets := cache, lastTargetUpdate := stamp\<rparr>) = Some client"
    using c by simp
  have nf: "client_send w client m ps \<noteq> Inl (TargetNotFound t)" for m ps
    by (simp add: client_send_def split: sum.splits)
  show ?thesis
    using nf by (simp add: execute_with_session [OF c] execute_with_session [OF c'])
qed

theorem execute_with_session_ignores_target_witness:
  "cdpClient proc_session = Some (CDPClient 3)
   \<and> find_target (targets proc_session) ''zz'' = None
   \<and> executeCDPCommand env_down 10000 proc_session ''zz'' ''Page'' ''reload'' None =
       (Inr (OtherReply ''{}''), proc_session, [Sent (CDPClient 3) ''Page.reload'' (Some [])])
   \<and> executeCDPCommand env_down 10000 (proc_session\<lparr>targets := None, lastTargetUpdate := None\<rparr>)
         ''t1'' ''Page'' ''reload'' None =
       (Inr (OtherReply ''{}''), proc_session\<lparr>targets := None, lastTargetUpdate := None\<rparr>,
        [Sent (CDPClient 3) ''Page.reload'' (Some [])])"
proof -
  have c: "cdpClient proc_session = Some (CDPClient 3)"
    by (simp add: proc_session_def)
  have a: "find_target (targets proc_session) ''zz'' = None"
    by (simp add: find_target_def proc_session_def proc_cached_def target_t1_def)
  have s: "client_send env_down (CDPClient 3) ''Page.reload'' (Some []) = Inr (OtherReply ''{}'')"
    by (simp add: client_send_def env_down_def)
  show ?thesis
    using c a s
      execute_with_session_ignores_target [OF c, of env_down 10000 "''zz''" "''Page''" "''reload''"
        None None None "''t1''"]
    by simp
qed

section \<open>Properties of stopping\<close>

text \<open>
  C7. For an identifier with no record, stop returns false, changes nothing and
  calls nothing. For an identifier with a record, stop closes the session if
  there is one, then kills the process, removes the entry and returns true; the
  entry is gone from the store it returns and no other entry is touched. A
  second stop on the store the first one returned yields false in every case.
\<close>

theorem stopElectronApp_removes_or_noop:
  "(electronProcesses state processId = None \<longrightarrow>
      stopElectronApp state processId = (False, state, []))
   \<and> (electronProcesses state processId = Some p \<longrightarrow>
      stopElectronApp state processId =
        (True,
         state\<lparr>electronProcesses := (electronProcesses state)(processId := None)\<rparr>,
         (case cdpClient p of None \<Rightarrow> [] | Some client \<Rightarrow> [Closed client]) @ [Killed (process p)])
      \<and> electronProcesses (fst (snd (stopElectronApp state processId))) processId = None)
   \<and> fst (stopElectronApp (fst (snd (stopElectronApp state processId))) processId) = False
   \<and> (\<forall>other. other \<noteq> processId \<longrightarrow>
        electronProcesses (fst (snd (stopElectronApp state processId))) other =
          electronProcesses state other)"
  by (auto simp: stopElectronApp_def Let_def split: option.splits)

theorem stopElectronApp_removes_or_noop_witness:
  "stopElectronApp state_one ''electron-1000'' =
     (True, \<lparr>electronProcesses = Map.empty\<rparr>,
      [Closed (CDPClient 3), Killed (ChildProcess 1 (Some 4242))])
   \<and> stopElectronApp \<lparr>electronProcesses = Map.empty\<rparr> ''electron-1000'' =
     (False, \<lparr>electronProcesses = Map.empty\<rparr>, [])
   \<and> stopElectronApp state_one ''electron-77'' = (False, state_one, [])"
proof -
  have h1: "electronProcesses state_one ''electron-1000'' = Some proc_session"
    by (simp add: state_one_def)
  have h2: "electronProcesses \<lparr>electronProcesses = Map.empty\<rparr> ''electron-1000'' = None"
    by simp
  have h3: "electronProcesses state_one ''electron-77'' = None"
    by (simp add: state_one_def)
  have e: "state_one\<lparr>electronProcesses := (electronProcesses state_one)(''electron-1000'' := None)\<rparr>
      = \<lparr>electronProcesses = Map.empty\<rparr>"
    by (simp add: state_one_def)
  have c: "cdpClient proc_session = Some (CDPClient 3)"
       "process proc_session = ChildProcess 1 (Some 4242)"
    by (simp_all add: proc_session_def proc_cached_def)
  show ?thesis
    using h1 h2 h3 e c
      stopElectronApp_removes_or_noop [of state_one "''electron-1000''" proc_session]
      stopElectronApp_removes_or_noop [of "\<lparr>electronProcesses = Map.empty\<rparr>" "''electron-1000''"]
      stopElectronApp_removes_or_noop [of state_one "''electron-77''"]
    by simp
qed

section \<open>Properties of starting\<close>

lemma first_available_free:
  "lo < hi \<Longrightarrow> isPortAvailable w lo = Inr True \<Longrightarrow>
   first_available w [lo..<hi] = (Inr (Some lo), [Probed lo])"
  by (simp add: upt_conv_Cons)

lemma first_available_taken:
  "lo < hi \<Longrightarrow> isPortAvailable w lo = Inr False \<Longrightarrow>
   first_available w [lo..<hi] =
     (case first_available w [Suc lo..<hi] of (found, ev) \<Rightarrow> (found, Probed lo # ev))"
  by (simp add: upt_conv_Cons)

lemma show_int_5000: "show_int 5000 = ''5000''"
  by (simp add: show_int_def show_nat.simps)

lemma scan_env_up: "scan_ports env_up = (Inr 9223, [Probed 9222, Probed 9223])"
proof -
  have a: "isPortAvailable env_up 9222 = Inr False" "isPortAvailable env_up (Suc 9222) = Inr True"
    by (simp_all add: isPortAvailable_def env_up_def env_down_def)
  have "first_available env_up [Suc 9222..<10000] = (Inr (Some (Suc 9222)), [Probed (Suc 9222)])"
    using a by (intro first_available_free) simp_all
  then have "first_available env_up [9222..<10000] = (Inr (Some 9223), [Probed 9222, Probed 9223])"
    using a first_available_taken [of 9222 10000 env_up] by simp
  then show ?thesis by (simp add: scan_ports_def)
qed

lemma poll_env_up:
  "debugPort p = Some port \<Longrightarrow> port \<noteq> 0 \<Longrightarrow> 0 < limit \<Longrightarrow>
   poll_targets env_up t0 limit t0 p =
     (True, p\<lparr>targets := Some [target_t1, target_t2], lastTargetUpdate := Some t0\<rparr>, [Fetched port])"
  by (subst poll_targets.simps) (simp add: updateCDPTargets_def env_up_def)






text \<open>
  The identifier of a started record is a function of the clock reading alone:
  neither the application path, the port nor the store enters it.
\<close>

lemma updateCDPTargets_id: "id' (fst (snd (updateCDPTargets w t p))) = id' p"
  by (auto simp: updateCDPTargets_def split: option.splits fetch_result.splits if_splits)

lemma poll_targets_id: "id' (fst (snd (poll_targets w s limit t p))) = id' p"
proof (induction w s limit t p rule: poll_targets.induct)
  case (1 w startTime' startupTimeout t p)
  show ?case
  proof (cases "t - startTime' < startupTimeout")
    case False
    then show ?thesis by (subst poll_targets.simps) simp
  next
    case True
    obtain r p1 ev1 where u: "updateCDPTargets w t p = (r, p1, ev1)"
      by (cases "updateCDPTargets w t p") auto
    have p1: "id' p1 = id' p"
      using updateCDPTargets_id [of w t p] u by simp
    show ?thesis
    proof (cases r)
      case (Inr ts)
      then show ?thesis
        using True u p1 by (subst poll_targets.simps) simp
    next
      case (Inl e)
      have "id' (fst (snd (poll_targets w startTime' startupTimeout (t + 500) p1))) = id' p1"
        using "1.IH" [of r "(p1, ev1)" e p1 ev1] True u Inl by simp
      then show ?thesis
        using True u p1 Inl
        by (subst poll_targets.simps) (auto split: prod.splits)
    qed
  qed
qed

lemma start_identifier:
  "fst (startElectronApp w now state appPath' debugPort' startupTimeout) = Inr p \<Longrightarrow>
   id' p = ''electron-'' @ show_int now"
proof -
  assume a: "fst (startElectronApp w now state appPath' debugPort' startupTimeout) = Inr p"
  obtain r ev0 where c: "choose_port w debugPort' = (r, ev0)"
    by (cases "choose_port w debugPort'") auto
  show ?thesis
  proof (cases r)
    case (Inl e)
    then show ?thesis using a c by (simp add: startElectronApp_def)
  next
    case (Inr port)
    then show ?thesis
      using a c
      by (auto simp: startElectronApp_def Let_def split: prod.splits
          dest!: arg_cong [where f = "\<lambda>x. id' (fst (snd x))"] simp: poll_targets_id)
  qed
qed

lemma start_env_up:
  "port \<noteq> 0 \<Longrightarrow> isPortAvailable env_up port = Inr True \<Longrightarrow>
   startElectronApp env_up 5000 state appPath' (Some port) None =
     (Inr \<lparr>id' = ''electron-5000'', process = ChildProcess 1 (Some 4242), name = ''demo'',
            status = running, pid = Some 4242, debugPort = Some port, startTime = 5000,
            logs = [], appPath = appPath', cdpClient = None,
            targets = Some [target_t1, target_t2], lastTargetUpdate = Some 5000\<rparr>,
      state\<lparr>electronProcesses := (electronProcesses state)(''electron-5000'' \<mapsto>
          \<lparr>id' = ''electron-5000'', process = ChildProcess 1 (Some 4242), name = ''demo'',
            status = running, pid = Some 4242, debugPort = Some port, startTime = 5000,
            logs = [], appPath = appPath', cdpClient = None,
            targets = Some [target_t1, target_t2], lastTargetUpdate = Some 5000\<rparr>)\<rparr>,
      [Probed port,
       Spawned ''electron'' [''--enable-logging'', ''--remote-debugging-port='' @ show_nat port, appPath'],
       Fetched port])"
  by (simp add: startElectronApp_def choose_port_def show_int_5000 Let_def poll_env_up)
    (simp add: env_up_def env_down_def)

text \<open>
  C3 fails on the code. Two starts that read the same clock value (5000), for
  two applications on two ports, both succeed and both return the identifier
  \<open>electron-5000\<close>. After the first start the store holds the first record under
  that identifier; after the second it holds the second record there and
  nothing else, so the first record, whose process is running, is no longer
  reachable under any identifier.
\<close>

theorem start_same_clock_same_identifier:
  "(case fst first_start of Inl e \<Rightarrow> None | Inr p \<Rightarrow> Some (id' p, appPath p, debugPort p)) =
      Some (''electron-5000'', ''/apps/one'', Some 9300)
   \<and> (case fst second_start of Inl e \<Rightarrow> None | Inr p \<Rightarrow> Some (id' p, appPath p, debugPort p)) =
      Some (''electron-5000'', ''/apps/two'', Some 9301)
   \<and> map_option appPath (electronProcesses (fst (snd first_start)) ''electron-5000'') =
      Some ''/apps/one''
   \<and> map_option appPath (electronProcesses (fst (snd second_start)) ''electron-5000'') =
      Some ''/apps/two''
   \<and> dom (electronProcesses (fst (snd second_start))) = {''electron-5000''}"
proof -
  have a: "isPortAvailable env_up 9300 = Inr True" "isPortAvailable env_up 9301 = Inr True"
    by (simp_all add: isPortAvailable_def env_up_def env_down_def)
  have f: "first_start = startElectronApp env_up 5000 createRuntimeState ''/apps/one'' (Some 9300) None"
    by (simp add: first_start_def)
  note f1 = f [unfolded start_env_up [of 9300, OF _ a(1), simplified]]
  have s: "second_start =
      startElectronApp env_up 5000 (fst (snd first_start)) ''/apps/two'' (Some 9301) None"
    by (simp add: second_start_def)
  note s1 = s [unfolded start_env_up [of 9301, OF _ a(2), simplified]]
  show ?thesis
    by (simp add: s1) (simp add: f1 createRuntimeState_def)
qed

section \<open>Properties of the debug information\<close>

text \<open>
  C2 fails on the code. For the running process \<open>electron-1000\<close> with an open
  session: when \<open>Performance.getMetrics\<close> is rejected, the four local values are
  \<open>unavailable\<close>, and the debug info returned carries the number 0 in the CPU and
  memory fields of the main process and of the renderer; when the reply has the
  heap metric but no CPU metric, the CPU fields carry 0 beside the real memory
  values. The fields of the returned record are numbers, so 0 stands where the
  metric is unavailable.
\<close>

theorem debug_info_reports_zero:
  "fst (read_metrics env_down proc_session) = (unavailable, unavailable, unavailable, unavailable)
   \<and> map_option (\<lambda>info. (cpuUsage (main (processes info)), memoryUsage (main (processes info)),
                          map cpuUsage (renderers (processes info)),
                          map memoryUsage (renderers (processes info))))
        (fst (getElectronDebugInfo env_down 2000 state_one ''electron-1000'')) =
      Some (0, 0, [0], [0])
   \<and> fst (read_metrics env_heap_only proc_session) =
        (unavailable, number 52428800, unavailable, number 26214400)
   \<and> map_option (\<lambda>info. (cpuUsage (main (processes info)), memoryUsage (main (processes info)),
                          map cpuUsage (renderers (processes info)),
                          map memoryUsage (renderers (processes info))))
        (fst (getElectronDebugInfo env_heap_only 2000 state_one ''electron-1000'')) =
      Some (0, 52428800, [0], [26214400])"
  by (simp add: getElectronDebugInfo_def read_metrics_def client_send_def number_or_zero_def
      updateCDPTargets_def state_one_def proc_session_def proc_cached_def env_down_def
      env_heap_only_def Let_def)

section \<open>Properties of resource routing\<close>

lemma split_not_Nil: "split sep s \<noteq> []"
  by (induction s) (auto split: list.splits)

lemma split_no_sep: "sep \<notin> set s \<Longrightarrow> split sep s = [s]"
  by (induction s) auto

lemma split_append_sep: "sep \<notin> set a \<Longrightarrow> split sep (a @ sep # b) = a # split sep b"
  by (induction a) (auto split: list.splits)

lemma join_split: "join [sep] (split sep s) = s"
proof (induction s)
  case Nil
  then show ?case by simp
next
  case (Cons c cs)
  obtain seg segs where s: "split sep cs = seg # segs"
    using split_not_Nil [of sep cs] by (cases "split sep cs") auto
  show ?case
    using Cons s by (cases segs) auto
qed

lemma split_segments_no_sep: "seg \<in> set (split sep s) \<Longrightarrow> sep \<notin> set seg"
proof (induction s arbitrary: seg)
  case Nil
  then show ?case by simp
next
  case (Cons c cs)
  obtain x xs where s: "split sep cs = x # xs"
    using split_not_Nil [of sep cs] by (cases "split sep cs") auto
  show ?case
    using Cons s by (auto split: if_splits)
qed

lemma parse_cdp_prefix:
  "parseElectronResourceUri (ELECTRON_RESOURCES_CDP @ path) =
     (case split CHR ''/'' path of
        processId # targetId # commandSegments \<Rightarrow>
          if processId = [] \<or> targetId = [] then Route_invalidCdp
          else if commandSegments = [] \<or> join ''/'' commandSegments = []
               then Route_cdp processId targetId None
               else Route_cdp processId targetId (Some (join ''/'' commandSegments))
      | _ \<Rightarrow> Route_invalidCdp)"
  by (simp add: parseElectronResourceUri_def ELECTRON_RESOURCES_CDP_def ELECTRON_RESOURCES_INFO_def
      ELECTRON_RESOURCES_TARGETS_def startsWith_def Let_def split: list.splits)

lemma parse_cdp_only_prefix:
  "parseElectronResourceUri uri = Route_cdp processId targetId cp \<Longrightarrow>
   uri = ELECTRON_RESOURCES_CDP @ drop (length ELECTRON_RESOURCES_CDP) uri"
proof -
  assume a: "parseElectronResourceUri uri = Route_cdp processId targetId cp"
  have "startsWith uri ELECTRON_RESOURCES_CDP"
    using a by (auto simp: parseElectronResourceUri_def split: if_splits)
  then have "take (length ELECTRON_RESOURCES_CDP) uri = ELECTRON_RESOURCES_CDP"
    by (simp add: startsWith_def)
  then show ?thesis
    using append_take_drop_id [of "length ELECTRON_RESOURCES_CDP" uri] by simp
qed

lemma parse_cdp_shape:
  assumes "parseElectronResourceUri uri = Route_cdp processId targetId cp"
  shows "processId \<noteq> [] \<and> targetId \<noteq> []
     \<and> CHR ''/'' \<notin> set processId \<and> CHR ''/'' \<notin> set targetId
     \<and> (\<exists>rest. uri = ELECTRON_RESOURCES_CDP @ processId @ ''/'' @ targetId @ rest
           \<and> (case cp of None \<Rightarrow> rest = [] \<or> rest = ''/''
               | Some c \<Rightarrow> c \<noteq> [] \<and> rest = ''/'' @ c))"
proof -
  define path where "path = drop (length ELECTRON_RESOURCES_CDP) uri"
  have u: "uri = ELECTRON_RESOURCES_CDP @ path"
    using parse_cdp_only_prefix [OF assms] by (simp add: path_def)
  have p: "(case split CHR ''/'' path of
        pid' # tid' # commandSegments \<Rightarrow>
          if pid' = [] \<or> tid' = [] then Route_invalidCdp
          else if commandSegments = [] \<or> join ''/'' commandSegments = []
               then Route_cdp pid' tid' None
               else Route_cdp pid' tid' (Some (join ''/'' commandSegments))
      | _ \<Rightarrow> Route_invalidCdp) = Route_cdp processId targetId cp"
    using assms u parse_cdp_prefix [of path] by simp
  obtain a rest1 where s1: "split CHR ''/'' path = a # rest1"
    using split_not_Nil [of "CHR ''/''" path] by (cases "split CHR ''/'' path") auto
  obtain b cs where s2: "rest1 = b # cs"
    using p s1 by (cases rest1) auto
  have ne: "a \<noteq> []" "b \<noteq> []"
    using p s1 s2 by (auto split: if_splits)
  have ab: "a = processId" "b = targetId"
    using p s1 s2 ne by (auto split: if_splits)
  have c: "cp = (if cs = [] \<or> join ''/'' cs = [] then None else Some (join ''/'' cs))"
    using p s1 s2 ne by (auto split: if_splits)
  have s: "split CHR ''/'' path = processId # targetId # cs"
    using s1 s2 ab by simp
  have ns: "CHR ''/'' \<notin> set processId" "CHR ''/'' \<notin> set targetId"
    using split_segments_no_sep [of processId "CHR ''/''" path]
      split_segments_no_sep [of targetId "CHR ''/''" path] s by simp_all
  have j: "path = join ''/'' (processId # targetId # cs)"
    using join_split [of "CHR ''/''" path] s by simp
  have r: "\<exists>rest. path = processId @ ''/'' @ targetId @ rest
           \<and> (case cp of None \<Rightarrow> rest = [] \<or> rest = ''/''
               | Some c \<Rightarrow> c \<noteq> [] \<and> rest = ''/'' @ c)"
  proof (cases cs)
    case Nil
    then have "path = processId @ ''/'' @ targetId @ []" "cp = None"
      using j c by simp_all
    then show ?thesis by (intro exI [of _ "[]"]) simp
  next
    case (Cons x xs)
    then have e: "path = processId @ ''/'' @ targetId @ (''/'' @ join ''/'' cs)"
      using j by simp
    show ?thesis
    proof (cases "join ''/'' cs = []")
      case True
      then have "cp = None" using c by simp
      then show ?thesis using e True by (intro exI [of _ "''/''"]) simp
    next
      case False
      then have "cp = Some (join ''/'' cs)" using c Cons by simp
      then show ?thesis using e False by (intro exI [of _ "''/'' @ join ''/'' cs"]) simp
    qed
  qed
  then obtain rest where r1: "path = processId @ ''/'' @ targetId @ rest"
    and r2: "(case cp of None \<Rightarrow> rest = [] \<or> rest = ''/''
               | Some c \<Rightarrow> c \<noteq> [] \<and> rest = ''/'' @ c)"
    by blast
  have "uri = ELECTRON_RESOURCES_CDP @ processId @ ''/'' @ targetId @ rest"
    using u r1 by simp
  then have "\<exists>rest. uri = ELECTRON_RESOURCES_CDP @ processId @ ''/'' @ targetId @ rest
           \<and> (case cp of None \<Rightarrow> rest = [] \<or> rest = ''/''
               | Some c \<Rightarrow> c \<noteq> [] \<and> rest = ''/'' @ c)"
    using r2 by blast
  then show ?thesis using ab ne ns by simp
qed

lemma commandParts_reject:
  "length (split CHR ''/'' cp) \<noteq> 2 \<or> [] \<in> set (split CHR ''/'' cp) \<Longrightarrow>
   commandParts cp = Inl (InvalidCdpCommand cp)"
  by (auto simp: commandParts_def split: list.splits if_splits)

lemma readCdp_reject:
  "electronProcesses state processId = Some p \<Longrightarrow> status p = running \<Longrightarrow> cp \<noteq> [] \<Longrightarrow>
   commandParts cp = Inl e \<Longrightarrow>
   readCdpResource w now state processId targetId (Some cp) = (Inl e, state, [])"
  by (simp add: readCdpResource_def requireRunningElectronProcess_def)

lemma parse_invalid_only_prefix:
  "parseElectronResourceUri uri = Route_invalidCdp \<Longrightarrow>
   uri = ELECTRON_RESOURCES_CDP @ drop (length ELECTRON_RESOURCES_CDP) uri"
proof -
  assume a: "parseElectronResourceUri uri = Route_invalidCdp"
  have "startsWith uri ELECTRON_RESOURCES_CDP"
    using a by (auto simp: parseElectronResourceUri_def split: if_splits)
  then have "take (length ELECTRON_RESOURCES_CDP) uri = ELECTRON_RESOURCES_CDP"
    by (simp add: startsWith_def)
  then show ?thesis
    using append_take_drop_id [of "length ELECTRON_RESOURCES_CDP" uri] by simp
qed

lemma missing_identifier_cases:
  "(length segs < 2 \<or> [] \<in> set (take 2 segs)) =
     (case segs of a # b # rest \<Rightarrow> a = [] \<or> b = [] | _ \<Rightarrow> True)"
  by (auto simp: numeral_2_eq_2 split: list.splits)

lemma parse_cdp_prefix_invalid:
  "(parseElectronResourceUri (ELECTRON_RESOURCES_CDP @ path) = Route_invalidCdp) =
     (length (split CHR ''/'' path) < 2 \<or> [] \<in> set (take 2 (split CHR ''/'' path)))"
  unfolding missing_identifier_cases parse_cdp_prefix
  by (simp split: list.splits)

lemma parse_invalid_iff:
  "(parseElectronResourceUri uri = Route_invalidCdp) =
     (\<exists>path. uri = ELECTRON_RESOURCES_CDP @ path
        \<and> (length (split CHR ''/'' path) < 2 \<or> [] \<in> set (take 2 (split CHR ''/'' path))))"
proof
  assume a: "parseElectronResourceUri uri = Route_invalidCdp"
  let ?path = "drop (length ELECTRON_RESOURCES_CDP) uri"
  have u: "uri = ELECTRON_RESOURCES_CDP @ ?path"
    using parse_invalid_only_prefix [OF a] .
  have "parseElectronResourceUri (ELECTRON_RESOURCES_CDP @ ?path) = Route_invalidCdp"
    using a u by simp
  then have "length (split CHR ''/'' ?path) < 2 \<or> [] \<in> set (take 2 (split CHR ''/'' ?path))"
    by (simp only: parse_cdp_prefix_invalid)
  then show "\<exists>path. uri = ELECTRON_RESOURCES_CDP @ path
        \<and> (length (split CHR ''/'' path) < 2 \<or> [] \<in> set (take 2 (split CHR ''/'' path)))"
    using u by blast
next
  assume "\<exists>path. uri = ELECTRON_RESOURCES_CDP @ path
        \<and> (length (split CHR ''/'' path) < 2 \<or> [] \<in> set (take 2 (split CHR ''/'' path)))"
  then obtain path where u: "uri = ELECTRON_RESOURCES_CDP @ path"
    and m: "length (split CHR ''/'' path) < 2 \<or> [] \<in> set (take 2 (split CHR ''/'' path))"
    by blast
  show "parseElectronResourceUri uri = Route_invalidCdp"
    using m unfolding u by (simp only: parse_cdp_prefix_invalid)
qed

lemma parse_cdp_positive:
  assumes "processId \<noteq> []" "CHR ''/'' \<notin> set processId"
    and "targetId \<noteq> []" "CHR ''/'' \<notin> set targetId"
  shows "parseElectronResourceUri (ELECTRON_RESOURCES_CDP @ processId @ ''/'' @ targetId) =
      Route_cdp processId targetId None"
    and "parseElectronResourceUri (ELECTRON_RESOURCES_CDP @ processId @ ''/'' @ targetId @ ''/'') =
      Route_cdp processId targetId None"
    and "commandPath \<noteq> [] \<Longrightarrow>
      parseElectronResourceUri
        (ELECTRON_RESOURCES_CDP @ processId @ ''/'' @ targetId @ ''/'' @ commandPath) =
      Route_cdp processId targetId (Some commandPath)"
proof -
  have s1: "split CHR ''/'' (processId @ ''/'' @ targetId) = [processId, targetId]"
    using assms split_append_sep [of "CHR ''/''" processId targetId]
    by (simp add: split_no_sep)
  show "parseElectronResourceUri (ELECTRON_RESOURCES_CDP @ processId @ ''/'' @ targetId) =
      Route_cdp processId targetId None"
    using assms by (simp add: parse_cdp_prefix s1 [simplified])
  have s2: "split CHR ''/'' (processId @ ''/'' @ targetId @ ''/'' @ c) =
      processId # targetId # split CHR ''/'' c" for c
    using assms split_append_sep [of "CHR ''/''" processId "targetId @ CHR ''/'' # c"]
      split_append_sep [of "CHR ''/''" targetId c]
    by simp
  show "parseElectronResourceUri (ELECTRON_RESOURCES_CDP @ processId @ ''/'' @ targetId @ ''/'') =
      Route_cdp processId targetId None"
    using assms s2 [of "[]", simplified] by (simp add: parse_cdp_prefix)
  show "parseElectronResourceUri
        (ELECTRON_RESOURCES_CDP @ processId @ ''/'' @ targetId @ ''/'' @ commandPath) =
      Route_cdp processId targetId (Some commandPath)" if "commandPath \<noteq> []"
    using assms that s2 [of commandPath, simplified] join_split [of "CHR ''/''" commandPath]
      split_not_Nil [of "CHR ''/''" commandPath]
    by (simp add: parse_cdp_prefix)
qed

lemma commandParts_accept:
  "domain \<noteq> [] \<Longrightarrow> CHR ''/'' \<notin> set domain \<Longrightarrow> method' \<noteq> [] \<Longrightarrow> CHR ''/'' \<notin> set method' \<Longrightarrow>
   commandParts (domain @ ''/'' @ method') = Inr (domain, method')"
  using split_append_sep [of "CHR ''/''" domain method']
  by (simp add: commandParts_def split_no_sep)

lemma readCdp_not_running:
  "electronProcesses state processId = None
     \<or> (\<exists>q. electronProcesses state processId = Some q \<and> status q \<noteq> running) \<Longrightarrow>
   readCdpResource w now state processId targetId commandPath =
     (Inl (ProcessNotFound processId), state, [])"
  by (auto simp: readCdpResource_def requireRunningElectronProcess_def)

lemma readCdp_dispatch:
  "electronProcesses state processId = Some p \<Longrightarrow> status p = running \<Longrightarrow> cp \<noteq> [] \<Longrightarrow>
   commandParts cp = Inr (domain, method') \<Longrightarrow>
   fst (readCdpResource w now state processId targetId (Some cp)) =
     (case fst (executeCDPCommand w now p targetId domain method' None) of
        Inl e \<Rightarrow> Inl (CdpCommandFailed e)
      | Inr r \<Rightarrow> Inr (CommandResult r))"
  by (simp add: readCdpResource_def requireRunningElectronProcess_def
      split: prod.splits sum.splits)

text \<open>
  C8, as stated, fails. The scheme of the resource URIs is \<open>electron\<close>. The cdp
  URI \<open>electron://cdp\<close>, which has neither identifier, parses to \<open>unknown\<close> and not
  to \<open>invalidCdp\<close>: the parser takes a URI for a cdp URI only when it starts with
  \<open>electron://cdp/\<close>. And the cdp route of \<open>electron://cdp/p1/t1/Page\<close>, whose
  command path has one segment, is refused at dispatch with the
  process-not-found error when no process \<open>p1\<close> is stored: the handler looks the
  process up before it checks the command path.
\<close>

theorem parse_bare_cdp_counterexample:
  "parseElectronResourceUri ''electron://cdp'' = Route_unknown
   \<and> parseElectronResourceUri ''electron://cdp/p1/t1/Page'' = Route_cdp ''p1'' ''t1'' (Some ''Page'')
   \<and> commandParts ''Page'' = Inl (InvalidCdpCommand ''Page'')
   \<and> readCdpResource env_down 2000 createRuntimeState ''p1'' ''t1'' (Some ''Page'') =
       (Inl (ProcessNotFound ''p1''), createRuntimeState, [])"
proof -
  have a: "parseElectronResourceUri ''electron://cdp'' = Route_unknown"
    by (simp add: parseElectronResourceUri_def startsWith_def ELECTRON_RESOURCES_INFO_def
        ELECTRON_RESOURCES_TARGETS_def ELECTRON_RESOURCES_CDP_def ELECTRON_RESOURCES_PROCESS_def
        ELECTRON_RESOURCES_LOGS_def)
  have b: "parseElectronResourceUri ''electron://cdp/p1/t1/Page'' =
      Route_cdp ''p1'' ''t1'' (Some ''Page'')"
    using parse_cdp_prefix [of "''p1/t1/Page''"] by (simp add: ELECTRON_RESOURCES_CDP_def)
  have c: "commandParts ''Page'' = Inl (InvalidCdpCommand ''Page'')"
    by (simp add: commandParts_def)
  have d: "readCdpResource env_down 2000 createRuntimeState ''p1'' ''t1'' (Some ''Page'') =
       (Inl (ProcessNotFound ''p1''), createRuntimeState, [])"
    by (simp add: readCdpResource_def requireRunningElectronProcess_def createRuntimeState_def)
  show ?thesis using a b c d by simp
qed

text \<open>
  C8, amended. A URI parses to \<open>invalidCdp\<close> exactly when it starts with the cdp
  prefix \<open>electron://cdp/\<close> and the rest, split at the slashes, has fewer than two
  segments or an empty first or second segment; so a URI with that prefix and
  only a process identifier (\<open>electron://cdp/p1\<close>), with an empty target
  identifier or with an empty process identifier parses to \<open>invalidCdp\<close>. For
  non-empty identifiers without a slash, the prefix followed by process
  identifier, slash and target identifier parses to the cdp route of the two
  with no command path, also with one more slash at the end, and followed by a
  slash and any non-empty command path it parses to the cdp route with exactly
  that command path; \<open>electron://cdp/p1/t1/Page/reload\<close> parses to the route of
  \<open>p1\<close> and \<open>t1\<close> with command path \<open>Page/reload\<close>. Nothing is coerced: whenever
  the parser yields a cdp route, both identifiers are non-empty, contain no
  slash and stand in the URI right after the prefix, followed by nothing, by a
  single slash or by a slash and the non-empty command path. At dispatch, for a
  cdp route that the parser yields with a command path that does not split into
  exactly two non-empty segments, the handler refuses the request and neither
  changes the store nor calls anything: with the invalid-command error when the
  process is stored and running, with the process-not-found error otherwise. A
  command path of a non-empty domain, a slash and a non-empty method, neither
  with a slash, is accepted as that domain and method, and for a stored, running
  process the handler's result is the result of the command executor for them.
\<close>

theorem parse_cdp_routes:
  "(parseElectronResourceUri uri = Route_invalidCdp) =
      (\<exists>path. uri = ELECTRON_RESOURCES_CDP @ path
         \<and> (length (split CHR ''/'' path) < 2 \<or> [] \<in> set (take 2 (split CHR ''/'' path))))
   \<and> (CHR ''/'' \<notin> set segment \<longrightarrow>
        parseElectronResourceUri (ELECTRON_RESOURCES_CDP @ segment) = Route_invalidCdp
        \<and> parseElectronResourceUri (ELECTRON_RESOURCES_CDP @ segment @ ''/'') = Route_invalidCdp
        \<and> parseElectronResourceUri (ELECTRON_RESOURCES_CDP @ segment @ ''//'' @ rest) =
            Route_invalidCdp)
   \<and> parseElectronResourceUri (ELECTRON_RESOURCES_CDP @ ''/'' @ rest) = Route_invalidCdp
   \<and> parseElectronResourceUri ''electron://cdp/p1'' = Route_invalidCdp
   \<and> (processId \<noteq> [] \<and> CHR ''/'' \<notin> set processId \<and> targetId \<noteq> [] \<and> CHR ''/'' \<notin> set targetId \<longrightarrow>
        parseElectronResourceUri (ELECTRON_RESOURCES_CDP @ processId @ ''/'' @ targetId) =
          Route_cdp processId targetId None
        \<and> parseElectronResourceUri (ELECTRON_RESOURCES_CDP @ processId @ ''/'' @ targetId @ ''/'') =
          Route_cdp processId targetId None
        \<and> (commandPath \<noteq> [] \<longrightarrow>
             parseElectronResourceUri
               (ELECTRON_RESOURCES_CDP @ processId @ ''/'' @ targetId @ ''/'' @ commandPath) =
             Route_cdp processId targetId (Some commandPath)))
   \<and> parseElectronResourceUri ''electron://cdp/p1/t1/Page/reload'' =
       Route_cdp ''p1'' ''t1'' (Some ''Page/reload'')
   \<and> (parseElectronResourceUri uri' = Route_cdp routeProcess routeTarget routeCommand \<longrightarrow>
        routeProcess \<noteq> [] \<and> routeTarget \<noteq> []
        \<and> CHR ''/'' \<notin> set routeProcess \<and> CHR ''/'' \<notin> set routeTarget
        \<and> (\<exists>tail. uri' = ELECTRON_RESOURCES_CDP @ routeProcess @ ''/'' @ routeTarget @ tail
              \<and> (case routeCommand of
                    None \<Rightarrow> tail = [] \<or> tail = ''/''
                  | Some c \<Rightarrow> c \<noteq> [] \<and> tail = ''/'' @ c)))
   \<and> (parseElectronResourceUri uri' = Route_cdp routeProcess routeTarget (Some bad)
        \<and> (length (split CHR ''/'' bad) \<noteq> 2 \<or> [] \<in> set (split CHR ''/'' bad)) \<longrightarrow>
        commandParts bad = Inl (InvalidCdpCommand bad)
        \<and> (electronProcesses state routeProcess = Some p \<and> status p = running \<longrightarrow>
             readCdpResource w now state routeProcess routeTarget (Some bad) =
               (Inl (InvalidCdpCommand bad), state, []))
        \<and> (electronProcesses state routeProcess = None
             \<or> (\<exists>q. electronProcesses state routeProcess = Some q \<and> status q \<noteq> running) \<longrightarrow>
             readCdpResource w now state routeProcess routeTarget (Some bad) =
               (Inl (ProcessNotFound routeProcess), state, [])))
   \<and> (domain \<noteq> [] \<and> CHR ''/'' \<notin> set domain \<and> method' \<noteq> [] \<and> CHR ''/'' \<notin> set method' \<longrightarrow>
        commandParts (domain @ ''/'' @ method') = Inr (domain, method')
        \<and> (electronProcesses state routeProcess = Some p \<and> status p = running \<longrightarrow>
             fst (readCdpResource w now state routeProcess routeTarget
                    (Some (domain @ ''/'' @ method'))) =
               (case fst (executeCDPCommand w now p routeTarget domain method' None) of
                  Inl e \<Rightarrow> Inl (CdpCommandFailed e)
                | Inr r \<Rightarrow> Inr (CommandResult r))))"
proof -
  have i: "(parseElectronResourceUri uri = Route_invalidCdp) =
      (\<exists>path. uri = ELECTRON_RESOURCES_CDP @ path
         \<and> (length (split CHR ''/'' path) < 2 \<or> [] \<in> set (take 2 (split CHR ''/'' path))))"
    by (rule parse_invalid_iff)
  have a: "parseElectronResourceUri ''electron://cdp/p1'' = Route_invalidCdp"
    using parse_cdp_prefix [of "''p1''"] by (simp add: ELECTRON_RESOURCES_CDP_def)
  have b: "parseElectronResourceUri ''electron://cdp/p1/t1/Page/reload'' =
       Route_cdp ''p1'' ''t1'' (Some ''Page/reload'')"
    using parse_cdp_prefix [of "''p1/t1/Page/reload''"] by (simp add: ELECTRON_RESOURCES_CDP_def)
  have c1: "parseElectronResourceUri (ELECTRON_RESOURCES_CDP @ segment) = Route_invalidCdp"
    if "CHR ''/'' \<notin> set segment"
    using that by (simp add: parse_cdp_prefix split_no_sep)
  have c2: "parseElectronResourceUri (ELECTRON_RESOURCES_CDP @ segment @ ''/'') = Route_invalidCdp"
    if "CHR ''/'' \<notin> set segment"
    using that split_append_sep [of "CHR ''/''" segment "[]"] by (simp add: parse_cdp_prefix)
  have c3: "parseElectronResourceUri (ELECTRON_RESOURCES_CDP @ segment @ ''//'' @ rest) =
      Route_invalidCdp"
    if "CHR ''/'' \<notin> set segment"
  proof -
    have "split CHR ''/'' (segment @ ''//'' @ rest) = segment # [] # split CHR ''/'' rest"
      using that split_append_sep [of "CHR ''/''" segment "CHR ''/'' # rest"] by simp
    then show ?thesis by (simp add: parse_cdp_prefix)
  qed
  have d: "parseElectronResourceUri (ELECTRON_RESOURCES_CDP @ ''/'' @ rest) = Route_invalidCdp"
    by (simp add: parse_cdp_prefix split: list.splits)
  have pos: "processId \<noteq> [] \<and> CHR ''/'' \<notin> set processId \<and> targetId \<noteq> [] \<and> CHR ''/'' \<notin> set targetId \<longrightarrow>
        parseElectronResourceUri (ELECTRON_RESOURCES_CDP @ processId @ ''/'' @ targetId) =
          Route_cdp processId targetId None
        \<and> parseElectronResourceUri (ELECTRON_RESOURCES_CDP @ processId @ ''/'' @ targetId @ ''/'') =
          Route_cdp processId targetId None
        \<and> (commandPath \<noteq> [] \<longrightarrow>
             parseElectronResourceUri
               (ELECTRON_RESOURCES_CDP @ processId @ ''/'' @ targetId @ ''/'' @ commandPath) =
             Route_cdp processId targetId (Some commandPath))"
    using parse_cdp_positive(1) [of processId targetId]
      parse_cdp_positive(2) [of processId targetId]
      parse_cdp_positive(3) [of processId targetId commandPath]
    by blast
  have e: "parseElectronResourceUri uri' = Route_cdp routeProcess routeTarget routeCommand \<longrightarrow>
        routeProcess \<noteq> [] \<and> routeTarget \<noteq> []
        \<and> CHR ''/'' \<notin> set routeProcess \<and> CHR ''/'' \<notin> set routeTarget
        \<and> (\<exists>tail. uri' = ELECTRON_RESOURCES_CDP @ routeProcess @ ''/'' @ routeTarget @ tail
              \<and> (case routeCommand of
                    None \<Rightarrow> tail = [] \<or> tail = ''/''
                  | Some c \<Rightarrow> c \<noteq> [] \<and> tail = ''/'' @ c))"
    using parse_cdp_shape [of uri' routeProcess routeTarget routeCommand] by blast
  have ne: "bad \<noteq> []"
    if "parseElectronResourceUri uri' = Route_cdp routeProcess routeTarget (Some bad)"
    using parse_cdp_shape [OF that] by auto
  have f: "commandParts bad = Inl (InvalidCdpCommand bad)"
    if "length (split CHR ''/'' bad) \<noteq> 2 \<or> [] \<in> set (split CHR ''/'' bad)"
    using that by (rule commandParts_reject)
  have g: "readCdpResource w now state routeProcess routeTarget (Some bad) =
               (Inl (InvalidCdpCommand bad), state, [])"
    if "parseElectronResourceUri uri' = Route_cdp routeProcess routeTarget (Some bad)"
      and "length (split CHR ''/'' bad) \<noteq> 2 \<or> [] \<in> set (split CHR ''/'' bad)"
      and "electronProcesses state routeProcess = Some p" "status p = running"
    using readCdp_reject [OF that(3) that(4) ne [OF that(1)] f [OF that(2)]] .
  have h: "readCdpResource w now state routeProcess routeTarget (Some bad) =
               (Inl (ProcessNotFound routeProcess), state, [])"
    if "electronProcesses state routeProcess = None
         \<or> (\<exists>q. electronProcesses state routeProcess = Some q \<and> status q \<noteq> running)"
    using that by (rule readCdp_not_running)
  have k: "commandParts (domain @ ''/'' @ method') = Inr (domain, method')"
    if "domain \<noteq> []" "CHR ''/'' \<notin> set domain" "method' \<noteq> []" "CHR ''/'' \<notin> set method'"
    using that by (rule commandParts_accept)
  have l: "fst (readCdpResource w now state routeProcess routeTarget
                    (Some (domain @ ''/'' @ method'))) =
               (case fst (executeCDPCommand w now p routeTarget domain method' None) of
                  Inl e \<Rightarrow> Inl (CdpCommandFailed e)
                | Inr r \<Rightarrow> Inr (CommandResult r))"
    if "domain \<noteq> []" "CHR ''/'' \<notin> set domain" "method' \<noteq> []" "CHR ''/'' \<notin> set method'"
      and "electronProcesses state routeProcess = Some p" "status p = running"
    using readCdp_dispatch [OF that(5) that(6) _ k [OF that(1-4)]] that(1) by simp
  have disp: "parseElectronResourceUri uri' = Route_cdp routeProcess routeTarget (Some bad)
        \<and> (length (split CHR ''/'' bad) \<noteq> 2 \<or> [] \<in> set (split CHR ''/'' bad)) \<longrightarrow>
        commandParts bad = Inl (InvalidCdpCommand bad)
        \<and> (electronProcesses state routeProcess = Some p \<and> status p = running \<longrightarrow>
             readCdpResource w now state routeProcess routeTarget (Some bad) =
               (Inl (InvalidCdpCommand bad), state, []))
        \<and> (electronProcesses state routeProcess = None
             \<or> (\<exists>q. electronProcesses state routeProcess = Some q \<and> status q \<noteq> running) \<longrightarrow>
             readCdpResource w now state routeProcess routeTarget (Some bad) =
               (Inl (ProcessNotFound routeProcess), state, []))"
    using f g h by blast
  have acc: "domain \<noteq> [] \<and> CHR ''/'' \<notin> set domain \<and> method' \<noteq> [] \<and> CHR ''/'' \<notin> set method' \<longrightarrow>
        commandParts (domain @ ''/'' @ method') = Inr (domain, method')
        \<and> (electronProcesses state routeProcess = Some p \<and> status p = running \<longrightarrow>
             fst (readCdpResource w now state routeProcess routeTarget
                    (Some (domain @ ''/'' @ method'))) =
               (case fst (executeCDPCommand w now p routeTarget domain method' None) of
                  Inl e \<Rightarrow> Inl (CdpCommandFailed e)
                | Inr r \<Rightarrow> Inr (CommandResult r)))"
    using k l by blast
  have inv: "CHR ''/'' \<notin> set segment \<longrightarrow>
        parseElectronResourceUri (ELECTRON_RESOURCES_CDP @ segment) = Route_invalidCdp
        \<and> parseElectronResourceUri (ELECTRON_RESOURCES_CDP @ segment @ ''/'') = Route_invalidCdp
        \<and> parseElectronResourceUri (ELECTRON_RESOURCES_CDP @ segment @ ''//'' @ rest) =
            Route_invalidCdp"
    using c1 c2 c3 by blast
  show ?thesis
    by (intro conjI i inv d a pos b e disp acc)
qed

theorem parse_cdp_routes_witness:
  "parseElectronResourceUri ''electron://cdp/electron-123'' = Route_invalidCdp
   \<and> parseElectronResourceUri ''electron://cdp/electron-123/'' = Route_invalidCdp
   \<and> parseElectronResourceUri ''electron://cdp//target-1'' = Route_invalidCdp
   \<and> parseElectronResourceUri ''electron://cdp/electron-123/target-1'' =
       Route_cdp ''electron-123'' ''target-1'' None
   \<and> parseElectronResourceUri ''electron://cdp/electron-123/target-1/Page/reload'' =
       Route_cdp ''electron-123'' ''target-1'' (Some ''Page/reload'')
   \<and> readCdpResource env_down 2000 state_one ''electron-1000'' ''t1'' (Some ''Page/reload/now'') =
       (Inl (InvalidCdpCommand ''Page/reload/now''), state_one, [])
   \<and> readCdpResource env_down 2000 createRuntimeState ''electron-1000'' ''t1''
         (Some ''Page/reload/now'') =
       (Inl (ProcessNotFound ''electron-1000''), createRuntimeState, [])
   \<and> commandParts ''Page/reload'' = Inr (''Page'', ''reload'')
   \<and> fst (readCdpResource env_down 2000 state_one ''electron-1000'' ''t1'' (Some ''Page/reload'')) =
       Inr (CommandResult (OtherReply ''{}''))"
proof -
  have n: "CHR ''/'' \<notin> set ''electron-123''" by simp
  have ids: "''electron-123'' \<noteq> [] \<and> CHR ''/'' \<notin> set ''electron-123''
      \<and> ''target-1'' \<noteq> [] \<and> CHR ''/'' \<notin> set ''target-1''" by simp
  have cp: "''Page/reload'' \<noteq> []" by simp
  have inv: "parseElectronResourceUri ''electron://cdp/electron-123'' = Route_invalidCdp
      \<and> parseElectronResourceUri ''electron://cdp/electron-123/'' = Route_invalidCdp
      \<and> parseElectronResourceUri ''electron://cdp//target-1'' = Route_invalidCdp"
    using n parse_cdp_routes [where segment = "''electron-123''" and rest = "''target-1''"]
    by (simp add: ELECTRON_RESOURCES_CDP_def)
  have pos: "parseElectronResourceUri ''electron://cdp/electron-123/target-1'' =
       Route_cdp ''electron-123'' ''target-1'' None
      \<and> parseElectronResourceUri ''electron://cdp/electron-123/target-1/Page/reload'' =
       Route_cdp ''electron-123'' ''target-1'' (Some ''Page/reload'')"
    using ids cp
      parse_cdp_routes [where processId = "''electron-123''" and targetId = "''target-1''"
        and commandPath = "''Page/reload''"]
    by (simp add: ELECTRON_RESOURCES_CDP_def)
  have r: "parseElectronResourceUri ''electron://cdp/electron-1000/t1/Page/reload/now'' =
      Route_cdp ''electron-1000'' ''t1'' (Some ''Page/reload/now'')"
    using parse_cdp_prefix [of "''electron-1000/t1/Page/reload/now''"]
    by (simp add: ELECTRON_RESOURCES_CDP_def)
  have s3: "length (split CHR ''/'' ''Page/reload/now'') \<noteq> 2 \<or>
      [] \<in> set (split CHR ''/'' ''Page/reload/now'')" by simp
  have st: "electronProcesses state_one ''electron-1000'' = Some proc_session
      \<and> status proc_session = running"
    by (simp add: state_one_def proc_session_def proc_cached_def)
  have none: "electronProcesses createRuntimeState ''electron-1000'' = None"
    by (simp add: createRuntimeState_def)
  have bad1: "readCdpResource env_down 2000 state_one ''electron-1000'' ''t1''
        (Some ''Page/reload/now'') =
       (Inl (InvalidCdpCommand ''Page/reload/now''), state_one, [])"
    using r s3 st
      parse_cdp_routes [where uri' = "''electron://cdp/electron-1000/t1/Page/reload/now''"
        and routeProcess = "''electron-1000''" and routeTarget = "''t1''"
        and bad = "''Page/reload/now''" and state = state_one and p = proc_session
        and w = env_down and now = 2000]
    by blast
  have bad2: "readCdpResource env_down 2000 createRuntimeState ''electron-1000'' ''t1''
         (Some ''Page/reload/now'') =
       (Inl (ProcessNotFound ''electron-1000''), createRuntimeState, [])"
    using r s3 none
      parse_cdp_routes [where uri' = "''electron://cdp/electron-1000/t1/Page/reload/now''"
        and routeProcess = "''electron-1000''" and routeTarget = "''t1''"
        and bad = "''Page/reload/now''" and state = createRuntimeState
        and w = env_down and now = 2000]
    by blast
  have dm: "''Page'' \<noteq> [] \<and> CHR ''/'' \<notin> set ''Page'' \<and> ''reload'' \<noteq> []
      \<and> CHR ''/'' \<notin> set ''reload''" by simp
  have ex: "fst (executeCDPCommand env_down 2000 proc_session ''t1'' ''Page'' ''reload'' None) =
      Inr (OtherReply ''{}'')"
    by (simp add: executeCDPCommand_def client_send_def proc_session_def env_down_def)
  have good: "commandParts ''Page/reload'' = Inr (''Page'', ''reload'')
      \<and> fst (readCdpResource env_down 2000 state_one ''electron-1000'' ''t1''
             (Some ''Page/reload'')) =
         Inr (CommandResult (OtherReply ''{}''))"
    using dm st ex
      parse_cdp_routes [where domain = "''Page''" and method' = "''reload''"
        and routeProcess = "''electron-1000''" and routeTarget = "''t1''"
        and state = state_one and p = proc_session and w = env_down and now = 2000]
    by simp
  show ?thesis using inv pos bad1 bad2 good by blast
qed

end
